theory Spec2Isabelle
  imports Main
begin

section \<open>The setup script \<open>quick_setup.py\<close> as state-passing functions\<close>

text \<open>
  The script is a sequence of effects: it prints, reads answers with \<open>input()\<close>, runs shell
  commands with \<open>subprocess.run\<close> and opens one UDP socket. Every function of the script is
  a function from a world to a result and the world after it. The world holds what the
  script cannot decide (the answers typed, how each child process ends, how each socket call
  ends, whether the environment directory exists) and the trace of what the script did.
\<close>

subsection \<open>Exceptions and results\<close>

text \<open>
  The exceptions that can travel through the script. \<open>KeyboardInterrupt\<close> and \<open>SystemExit\<close>
  derive from \<open>BaseException\<close> only; the other three derive from \<open>Exception\<close>.
  \<open>CalledProcessError\<close> carries the return code and the command, \<open>OSError\<close> its message.
\<close>

datatype exn =
    KeyboardInterrupt
  | SystemExit int
  | CalledProcessError int string
  | OSError string
  | EOFError

fun is_Exception :: "exn \<Rightarrow> bool" where
  "is_Exception KeyboardInterrupt = False"
| "is_Exception (SystemExit n) = False"
| "is_Exception (CalledProcessError rc c) = True"
| "is_Exception (OSError m) = True"
| "is_Exception EOFError = True"

datatype 'a result = Return 'a | Raise exn

subsection \<open>What the environment decides\<close>

text \<open>
  A library call returns, is interrupted from the keyboard while it runs, or fails with an
  \<open>OSError\<close>.
\<close>

datatype 'a outcome = Ok 'a | Interrupted | Failed string

text \<open>One answer to \<open>input()\<close>: a line of text, or Ctrl-C at the prompt.\<close>

datatype keyed = Line string | CtrlC

text \<open>The five calls \<open>get_local_ip\<close> makes on its socket, in the order it makes them.\<close>

datatype sock_call = Socket | Settimeout | Connect | Getsockname | Close

text \<open>
  What the script does, in order. The texts are those of the source without the colour
  escape sequences, the blank lines around them and the check mark before \<open>Done!\<close>. \<open>Raises\<close> marks the point where a
  library call raised; \<open>Traceback\<close> is the interpreter's report of an exception nobody
  caught.
\<close>

datatype event =
    Print string
  | PrintError exn
  | Prompt string
  | Run string
  | Sock sock_call
  | Raises exn
  | Traceback exn

text \<open>
  \<open>script_dir\<close> is the module-level constant of that name. \<open>path_join\<close> and \<open>path_exists\<close>
  stand for \<open>os.path.join\<close> (first argument, then the others) and \<open>os.path.exists\<close>, which
  belong to the platform. \<open>stdin\<close> holds the answers to the successive \<open>input()\<close> calls,
  \<open>child n c\<close> is the return code with which the shell command \<open>c\<close> ends when it is the
  \<open>n\<close>-th command of the run (counted from 0), \<open>sock\<close> tells how each socket call ends and
  \<open>sockname\<close> is the address \<open>getsockname()[0]\<close> reads.
\<close>

record world =
  script_dir :: string
  path_join :: "string \<Rightarrow> string list \<Rightarrow> string"
  path_exists :: "string \<Rightarrow> bool"
  stdin :: "keyed list"
  child :: "nat \<Rightarrow> string \<Rightarrow> int outcome"
  sock :: "sock_call \<Rightarrow> unit outcome"
  sockname :: string
  trace :: "event list"

type_synonym 'a prog = "world \<Rightarrow> 'a result \<times> world"

definition emit :: "event \<Rightarrow> world \<Rightarrow> world" where
  "emit ev w = w\<lparr>trace := trace w @ [ev]\<rparr>"

text \<open>Sequencing: an exception of the first part skips the rest.\<close>

definition andThen :: "'a result \<times> world \<Rightarrow> ('a \<Rightarrow> 'b prog) \<Rightarrow> 'b result \<times> world" where
  "andThen m f = (case m of (Return a, w) \<Rightarrow> f a w | (Raise e, w) \<Rightarrow> (Raise e, w))"

text \<open>The shell commands issued so far, oldest first.\<close>

fun commands :: "event list \<Rightarrow> string list" where
  "commands [] = []"
| "commands (Run c # evs) = c # commands evs"
| "commands (ev # evs) = commands evs"

subsection \<open>Library calls\<close>

text \<open>
  \<open>str.lower()\<close> on the characters the script compares with: the letters \<open>A\<close> to \<open>Z\<close>
  become \<open>a\<close> to \<open>z\<close>, every other character of the 8-bit character type stays as it is.
\<close>

definition lower_char :: "char \<Rightarrow> char" where
  "lower_char c =
     (if 65 \<le> (of_char c :: nat) \<and> (of_char c :: nat) \<le> 90
      then char_of ((of_char c :: nat) + 32) else c)"

definition lower :: "string \<Rightarrow> string" where
  "lower s = map lower_char s"

text \<open>\<open>input(prompt)\<close>: at the end of the input it raises \<open>EOFError\<close>.\<close>

definition input :: "string \<Rightarrow> string prog" where
  "input prompt w =
     (let w1 = emit (Prompt prompt) w in
      case stdin w1 of
        [] \<Rightarrow> (Raise EOFError, emit (Raises EOFError) w1)
      | CtrlC # rest \<Rightarrow> (Raise KeyboardInterrupt, emit (Raises KeyboardInterrupt) (w1\<lparr>stdin := rest\<rparr>))
      | Line s # rest \<Rightarrow> (Return s, w1\<lparr>stdin := rest\<rparr>))"

text \<open>
  \<open>subprocess.run(command, shell=True, check=True)\<close>: with \<open>check=True\<close> a return code
  other than zero is raised as \<open>CalledProcessError\<close>.
\<close>

definition subprocess_run :: "string \<Rightarrow> unit prog" where
  "subprocess_run command w =
     (let n = length (commands (trace w)); w1 = emit (Run command) w in
      case child w n command of
        Ok rc \<Rightarrow> (if rc \<noteq> 0 then (Raise (CalledProcessError rc command), w1) else (Return (), w1))
      | Interrupted \<Rightarrow> (Raise KeyboardInterrupt, emit (Raises KeyboardInterrupt) w1)
      | Failed m \<Rightarrow> (Raise (OSError m), emit (Raises (OSError m)) w1))"

text \<open>One call on the diagnostic socket.\<close>

definition sock_do :: "sock_call \<Rightarrow> unit prog" where
  "sock_do c w =
     (let w1 = emit (Sock c) w in
      case sock w c of
        Ok u \<Rightarrow> (Return (), w1)
      | Interrupted \<Rightarrow> (Raise KeyboardInterrupt, emit (Raises KeyboardInterrupt) w1)
      | Failed m \<Rightarrow> (Raise (OSError m), emit (Raises (OSError m)) w1))"

definition backslash :: string where
  "backslash = [CHR 0x5C]"

subsection \<open>The functions of the script\<close>

text \<open>
  \<open>run_command(command, **kwargs)\<close>. The label is \<open>kwargs.get("section_name")\<close>: absent it
  is \<open>None\<close>, and \<open>if section_name\<close> is false for \<open>None\<close> and for the empty string. Only
  \<open>CalledProcessError\<close> is caught.
\<close>

definition announce :: "string option \<Rightarrow> world \<Rightarrow> world" where
  "announce section_name w =
     (case section_name of
        None \<Rightarrow> w
      | Some n \<Rightarrow> if n \<noteq> [] then emit (Print (''Running '' @ n @ ''...'')) w else w)"

definition run_command :: "string \<Rightarrow> string option \<Rightarrow> unit prog" where
  "run_command command section_name w =
     (case subprocess_run command (announce section_name w) of
        (Return u, w1) \<Rightarrow> (Return (), emit (Print ''Done!'') w1)
      | (Raise (CalledProcessError rc c), w1) \<Rightarrow>
          (Raise (SystemExit 1), emit (PrintError (CalledProcessError rc c)) w1)
      | (Raise e, w1) \<Rightarrow> (Raise e, w1))"

text \<open>
  \<open>get_local_ip()\<close>. \<open>except Exception\<close> catches what derives from \<open>Exception\<close>; the result
  is \<open>None\<close> then.
\<close>

definition get_local_ip_try :: "string prog" where
  "get_local_ip_try w =
     andThen (sock_do Socket w) (\<lambda>u w.
     andThen (sock_do Settimeout w) (\<lambda>u w.
     andThen (sock_do Connect w) (\<lambda>u w.
     andThen (sock_do Getsockname w) (\<lambda>u w.
     andThen (sock_do Close w) (\<lambda>u w.
       (Return (sockname w), w))))))"

definition get_local_ip :: "string option prog" where
  "get_local_ip w =
     (case get_local_ip_try w of
        (Return local_ip, w1) \<Rightarrow> (Return (Some local_ip), w1)
      | (Raise e, w1) \<Rightarrow>
          if is_Exception e then (Return None, emit (PrintError e) w1) else (Raise e, w1))"

definition create_command :: "string \<Rightarrow> string" where
  "create_command venv_path = ''python -m venv '' @ venv_path"

definition create_virtual_environment :: "string \<Rightarrow> unit prog" where
  "create_virtual_environment venv_path w =
     run_command (create_command venv_path) None
       (emit (Print ''Creating a virtual environment...'') w)"

definition activate_command :: "world \<Rightarrow> string \<Rightarrow> string" where
  "activate_command w venv_path = path_join w venv_path [''Scripts'', ''activate'']"

definition activate_virtual_environment :: "string \<Rightarrow> unit prog" where
  "activate_virtual_environment venv_path w =
     run_command (activate_command w venv_path) None w"

definition install_command :: "string \<Rightarrow> string \<Rightarrow> string" where
  "install_command venv_path requirements_path =
     venv_path @ backslash @ ''Scripts'' @ backslash @ ''pip install -r '' @ requirements_path"

definition install_dependencies :: "string \<Rightarrow> string \<Rightarrow> unit prog" where
  "install_dependencies venv_path requirements_path w =
     run_command (install_command venv_path requirements_path) None
       (emit (Print ''Installing project dependencies...'') w)"

text \<open>The common shape of the four \<open>manage.py\<close> commands.\<close>

definition manage_command :: "world \<Rightarrow> string \<Rightarrow> string \<Rightarrow> string \<Rightarrow> string" where
  "manage_command w venv_path project_dir sub =
     venv_path @ backslash @ ''Scripts'' @ backslash @ ''python ''
       @ path_join w project_dir [''manage.py''] @ '' '' @ sub"

definition run_initial_management_commands :: "string \<Rightarrow> string \<Rightarrow> unit prog" where
  "run_initial_management_commands venv_path project_dir w =
     andThen (run_command (manage_command w venv_path project_dir ''makemigrations'')
                (Some ''makemigrations'')
                (emit (Print ''Running initial management commands...'') w)) (\<lambda>u w.
     andThen (run_command (manage_command w venv_path project_dir ''migrate'')
                (Some ''migrate'') w) (\<lambda>u w.
     run_command (manage_command w venv_path project_dir ''collectstatic --noinput'')
       (Some ''collectstatic'') w))"

definition ask_start :: string where
  "ask_start = ''Start the Django development server? (y/n): ''"

definition ask_expose :: string where
  "ask_expose = ''Expose the server to the network? (y/n): ''"

definition no_ip_warning :: string where
  "no_ip_warning = ''Unable to determine the local IP address. You can manually find it and use it to access the server.''"

definition start_django_server :: "string \<Rightarrow> string \<Rightarrow> unit prog" where
  "start_django_server venv_path project_dir w =
     andThen (input ask_start w) (\<lambda>start_server w.
       if lower start_server = ''y'' then
         andThen (input ask_expose w) (\<lambda>expose_to_network w.
           if lower expose_to_network = ''y'' then
             andThen (get_local_ip
                        (emit (Print ''Please ensure proper security measures are in place.'')
                          (emit (Print ''WARNING: Exposing the server to the network may pose security risks.'') w)))
               (\<lambda>local_ip w.
                  run_command (manage_command w venv_path project_dir ''runserver 0.0.0.0:80'')
                    (Some ''Django server'')
                    (case local_ip of
                       None \<Rightarrow> emit (Print no_ip_warning) w
                     | Some ip \<Rightarrow>
                         if ip \<noteq> [] then
                           emit (Print (''You can access the server from other devices on the network using this IP: '' @ ip @ '':8000'')) w
                         else emit (Print no_ip_warning) w))
           else
             run_command (manage_command w venv_path project_dir ''runserver'')
               (Some ''Django server'') w)
       else (Return (), w))"

text \<open>The two positional arguments, as \<open>parse_args()\<close> returns them.\<close>

record args =
  requirements :: string
  project_dir :: string

definition ask_reinstall :: string where
  "ask_reinstall = ''A virtual environment already exists. Reinstall the project? (y/n): ''"

definition ask_run_anyway :: string where
  "ask_run_anyway = ''Run the management commands anyway? (y/n): ''"

definition completed_without :: string where
  "completed_without = ''Setup completed without reinstalling the project.''"

definition completed_ok :: string where
  "completed_ok = ''Setup and server run completed successfully!''"

definition interrupt_message :: string where
  "interrupt_message = ''KeyboardInterrupt. Exiting...''"

definition venv_of :: "world \<Rightarrow> string" where
  "venv_of w = path_join w (script_dir w) [''venv'']"

text \<open>The body of the \<open>try\<close> of \<open>main\<close>, after \<open>parse_args()\<close> has returned.\<close>

definition main_try :: "args \<Rightarrow> unit prog" where
  "main_try a w =
     (let venv_path = venv_of w in
      andThen
        (if path_exists w venv_path then
           andThen (input ask_reinstall w) (\<lambda>reinstall_project w.
             if lower reinstall_project = ''n'' then
               andThen (input ask_run_anyway w) (\<lambda>run_management_commands w.
                 andThen
                   (if lower run_management_commands = ''y'' then
                      andThen (run_initial_management_commands venv_path (project_dir a) w) (\<lambda>u w.
                        start_django_server venv_path (project_dir a) w)
                    else (Return (), w))
                   (\<lambda>u w. (Raise (SystemExit 0), emit (Print completed_without) w)))
             else (Return (), w))
         else (Return (), w))
        (\<lambda>u w.
           andThen (create_virtual_environment venv_path w) (\<lambda>u w.
           andThen (activate_virtual_environment venv_path w) (\<lambda>u w.
           andThen (install_dependencies venv_path (requirements a) w) (\<lambda>u w.
           andThen (run_initial_management_commands venv_path (project_dir a) w) (\<lambda>u w.
           andThen (start_django_server venv_path (project_dir a) w) (\<lambda>u w.
             (Return (), emit (Print completed_ok) w))))))))"

text \<open>\<open>main()\<close>: the \<open>try\<close> with its one handler, for \<open>KeyboardInterrupt\<close>.\<close>

definition main :: "args \<Rightarrow> unit prog" where
  "main a w =
     (case main_try a w of
        (Raise KeyboardInterrupt, w1) \<Rightarrow> (Raise (SystemExit 1), emit (Print interrupt_message) w1)
      | (r, w1) \<Rightarrow> (r, w1))"

text \<open>
  The script run as a program: the exit status of the process and the world it leaves.
  A normal return is status 0, \<open>SystemExit n\<close> is status \<open>n\<close>, and any other exception
  reaching the interpreter is reported with its traceback and is status 1.
\<close>

definition script :: "args \<Rightarrow> world \<Rightarrow> int \<times> world" where
  "script a w =
     (case main a w of
        (Return u, w1) \<Rightarrow> (0, w1)
      | (Raise (SystemExit n), w1) \<Rightarrow> (n, w1)
      | (Raise e, w1) \<Rightarrow> (1, emit (Traceback e) w1))"

subsection \<open>Predicates on worlds and traces\<close>

text \<open>The report \<open>run_command\<close> prints when a command ended with a return code other than zero.\<close>

fun is_cpe :: "event \<Rightarrow> bool" where
  "is_cpe (PrintError (CalledProcessError rc c)) = True"
| "is_cpe ev = False"

fun is_traceback :: "event \<Rightarrow> bool" where
  "is_traceback (Traceback e) = True"
| "is_traceback ev = False"

text \<open>
  So far the run is in order: nothing was interrupted, no command failed, and neither the
  handler of \<open>main\<close> nor the interpreter has reported anything.
\<close>

definition tidy :: "world \<Rightarrow> bool" where
  "tidy w = (\<forall>ev \<in> set (trace w).
     ev \<noteq> Print interrupt_message \<and> ev \<noteq> Raises KeyboardInterrupt \<and> \<not> is_cpe ev \<and> \<not> is_traceback ev)"

text \<open>
  The result of a part of the script agrees with its trace: \<open>KeyboardInterrupt\<close> leaves
  it exactly when the last thing that happened was the interrupt, \<open>SystemExit 1\<close> leaves
  it exactly when the last thing that happened was the report of a failed command, and
  otherwise neither is in the trace.
\<close>

definition sound :: "'a result \<times> world \<Rightarrow> bool" where
  "sound m = (case m of (r, w') \<Rightarrow>
     (\<forall>ev \<in> set (trace w'). ev \<noteq> Print interrupt_message \<and> \<not> is_traceback ev)
   \<and> (if r = Raise KeyboardInterrupt
      then trace w' \<noteq> [] \<and> last (trace w') = Raises KeyboardInterrupt
      else Raises KeyboardInterrupt \<notin> set (trace w'))
   \<and> (if r = Raise (SystemExit 1)
      then trace w' \<noteq> [] \<and> is_cpe (last (trace w'))
      else \<forall>ev \<in> set (trace w'). \<not> is_cpe ev))"

text \<open>The second world has the environment, the pending input and the commands of the first.\<close>

definition same_env :: "world \<Rightarrow> world \<Rightarrow> bool" where
  "same_env w w' = (path_join w' = path_join w \<and> child w' = child w \<and> sock w' = sock w
     \<and> stdin w' = stdin w \<and> commands (trace w') = commands (trace w))"

subsection \<open>A sample run\<close>

text \<open>
  A machine on which no environment exists yet, every command succeeds, the network is
  reachable and nothing has been typed.
\<close>

definition sample :: world where
  "sample = \<lparr>script_dir = ''C:/tools'',
     path_join = (\<lambda>p ps. foldl (\<lambda>x y. x @ ''/'' @ y) p ps),
     path_exists = (\<lambda>p. False), stdin = [], child = (\<lambda>n c. Ok 0),
     sock = (\<lambda>c. Ok ()), sockname = ''192.168.1.5'', trace = []\<rparr>"

definition sample_args :: args where
  "sample_args = \<lparr>requirements = ''req.txt'', project_dir = ''shop''\<rparr>"

text \<open>The same machine without a route to the network: \<open>connect\<close> fails.\<close>

definition unreachable :: world where
  "unreachable = sample\<lparr>sock := \<lambda>c. if c = Connect then Failed ''Network is unreachable'' else Ok ()\<rparr>"

text \<open>The second world has the trace of the first and possibly more.\<close>

definition grows :: "world \<Rightarrow> world \<Rightarrow> bool" where
  "grows w w' = (\<exists>evs. trace w' = trace w @ evs)"

text \<open>The same machine where the shell that should run a command cannot be started.\<close>

definition no_shell :: world where
  "no_shell = sample\<lparr>child := \<lambda>n c. Failed ''cannot start the shell''\<rparr>"

text \<open>The same machine with Ctrl-C pressed while the socket connects.\<close>

definition interrupted_lookup :: world where
  "interrupted_lookup = sample\<lparr>sock := \<lambda>c. if c = Connect then Interrupted else Ok ()\<rparr>"

subsection \<open>Parts of \<open>main\<close> and of its trace\<close>

text \<open>
  The five steps of \<open>main\<close> that follow the question about an existing environment, with
  the final message.
\<close>

definition setup_steps :: "args \<Rightarrow> string \<Rightarrow> unit prog" where
  "setup_steps a venv_path w =
     andThen (create_virtual_environment venv_path w) (\<lambda>u w.
     andThen (activate_virtual_environment venv_path w) (\<lambda>u w.
     andThen (install_dependencies venv_path (requirements a) w) (\<lambda>u w.
     andThen (run_initial_management_commands venv_path (project_dir a) w) (\<lambda>u w.
     andThen (start_django_server venv_path (project_dir a) w) (\<lambda>u w.
       (Return (), emit (Print completed_ok) w))))))"

text \<open>The same machine with the environment directory already there.\<close>

definition exists_sample :: world where
  "exists_sample = sample\<lparr>path_exists := \<lambda>p. True\<rparr>"

text \<open>What creating, activating and installing leave in the trace when all three succeed.\<close>

definition provision_events :: "world \<Rightarrow> string \<Rightarrow> string \<Rightarrow> event list" where
  "provision_events w v r =
     [Print ''Creating a virtual environment...'', Run (create_command v), Print ''Done!'',
      Run (activate_command w v), Print ''Done!'',
      Print ''Installing project dependencies...'', Run (install_command v r), Print ''Done!'']"

text \<open>What the three management commands leave in the trace when all three succeed.\<close>

definition bootstrap_events :: "world \<Rightarrow> string \<Rightarrow> string \<Rightarrow> event list" where
  "bootstrap_events w v p =
     [Print ''Running initial management commands...'',
      Print ''Running makemigrations...'', Run (manage_command w v p ''makemigrations''), Print ''Done!'',
      Print ''Running migrate...'', Run (manage_command w v p ''migrate''), Print ''Done!'',
      Print ''Running collectstatic...'', Run (manage_command w v p ''collectstatic --noinput''),
      Print ''Done!'']"

section \<open>Basic facts\<close>

lemma commands_append: "commands (xs @ ys) = commands xs @ commands ys"
  by (induction xs rule: commands.induct) simp_all

lemma of_char_lower_char:
  "(of_char (lower_char c) :: nat) =
     (if 65 \<le> (of_char c :: nat) \<and> (of_char c :: nat) \<le> 90 then of_char c + 32 else of_char c)"
  by (simp add: lower_char_def)

lemma lower_char_y: "lower_char c = CHR ''y'' \<longleftrightarrow> c = CHR ''y'' \<or> c = CHR ''Y''"
proof -
  have "lower_char c = CHR ''y'' \<longleftrightarrow> (of_char (lower_char c) :: nat) = of_char (CHR ''y'')"
    by (simp only: of_char_eq_iff)
  also have "\<dots> \<longleftrightarrow> (of_char c :: nat) = 121 \<or> (of_char c :: nat) = 89"
    unfolding of_char_lower_char by auto
  also have "\<dots> \<longleftrightarrow> (of_char c :: nat) = of_char (CHR ''y'') \<or> (of_char c :: nat) = of_char (CHR ''Y'')"
    by simp
  also have "\<dots> \<longleftrightarrow> c = CHR ''y'' \<or> c = CHR ''Y''"
    by (simp only: of_char_eq_iff)
  finally show ?thesis .
qed

lemma lower_char_n: "lower_char c = CHR ''n'' \<longleftrightarrow> c = CHR ''n'' \<or> c = CHR ''N''"
proof -
  have "lower_char c = CHR ''n'' \<longleftrightarrow> (of_char (lower_char c) :: nat) = of_char (CHR ''n'')"
    by (simp only: of_char_eq_iff)
  also have "\<dots> \<longleftrightarrow> (of_char c :: nat) = 110 \<or> (of_char c :: nat) = 78"
    unfolding of_char_lower_char by auto
  also have "\<dots> \<longleftrightarrow> (of_char c :: nat) = of_char (CHR ''n'') \<or> (of_char c :: nat) = of_char (CHR ''N'')"
    by simp
  also have "\<dots> \<longleftrightarrow> c = CHR ''n'' \<or> c = CHR ''N''"
    by (simp only: of_char_eq_iff)
  finally show ?thesis .
qed

lemma lower_y: "lower s = ''y'' \<longleftrightarrow> s = ''y'' \<or> s = ''Y''"
  by (cases s) (auto simp: lower_def lower_char_y)

lemma lower_n: "lower s = ''n'' \<longleftrightarrow> s = ''n'' \<or> s = ''N''"
  by (cases s) (auto simp: lower_def lower_char_n)

lemma andThen_Return: "andThen (Return x, w) f = f x w"
  by (simp add: andThen_def)

lemma andThen_Raise: "andThen (Raise e, w) f = (Raise e, w)"
  by (simp add: andThen_def)

subsection \<open>Running one command\<close>

lemma run_command_ok:
  "child w (length (commands (trace w))) c = Ok 0 \<Longrightarrow>
   run_command c l w = (Return (), emit (Print ''Done!'') (emit (Run c) (announce l w)))"
  by (simp add: run_command_def subprocess_run_def announce_def emit_def commands_append Let_def
      split: option.splits)

lemma run_command_fail:
  "child w (length (commands (trace w))) c = Ok rc \<Longrightarrow> rc \<noteq> 0 \<Longrightarrow>
   run_command c l w =
     (Raise (SystemExit 1), emit (PrintError (CalledProcessError rc c)) (emit (Run c) (announce l w)))"
  by (simp add: run_command_def subprocess_run_def announce_def emit_def commands_append Let_def
      split: option.splits)

lemma run_command_commands:
  "commands (trace (snd (run_command c l w))) = commands (trace w) @ [c]"
  by (auto simp: run_command_def subprocess_run_def announce_def emit_def commands_append Let_def
      split: outcome.splits option.splits)

lemma run_command_raises:
  "child w (length (commands (trace w))) c = Failed m \<Longrightarrow>
   run_command c l w = (Raise (OSError m), emit (Raises (OSError m)) (emit (Run c) (announce l w)))"
  "child w (length (commands (trace w))) c = Interrupted \<Longrightarrow>
   run_command c l w =
     (Raise KeyboardInterrupt, emit (Raises KeyboardInterrupt) (emit (Run c) (announce l w)))"
  by (simp_all add: run_command_def subprocess_run_def announce_def emit_def commands_append Let_def
      split: option.splits)

subsection \<open>Results agree with traces\<close>

lemma sound_andThen:
  assumes "sound m" and "\<And>a w. tidy w \<Longrightarrow> sound (f a w)"
  shows "sound (andThen m f)"
proof (cases m)
  case (Pair r w1)
  show ?thesis
  proof (cases r)
    case (Return a)
    with Pair assms(1) have "tidy w1" by (auto simp: sound_def tidy_def)
    with assms(2) Pair Return show ?thesis by (simp add: andThen_def)
  next
    case (Raise e)
    with Pair assms(1) show ?thesis by (simp add: andThen_def sound_def)
  qed
qed

lemma tidy_emit:
  "tidy w \<Longrightarrow> ev \<noteq> Print interrupt_message \<Longrightarrow> ev \<noteq> Raises KeyboardInterrupt \<Longrightarrow>
   \<not> is_cpe ev \<Longrightarrow> \<not> is_traceback ev \<Longrightarrow> tidy (emit ev w)"
  by (auto simp: tidy_def emit_def)

lemma tidy_announce: "tidy w \<Longrightarrow> tidy (announce l w)"
  by (auto simp: announce_def interrupt_message_def intro!: tidy_emit split: option.splits)

lemma sound_Return: "tidy w \<Longrightarrow> sound (Return x, w)"
  by (auto simp: sound_def tidy_def)

lemma sound_if: "(b \<Longrightarrow> sound p) \<Longrightarrow> (\<not> b \<Longrightarrow> sound q) \<Longrightarrow> sound (if b then p else q)"
  by simp

lemma sound_input: "tidy w \<Longrightarrow> sound (input p w)"
  by (auto simp: sound_def tidy_def input_def emit_def Let_def split: list.splits keyed.splits)

lemma sound_sock_do: "tidy w \<Longrightarrow> sound (sock_do c w)"
  by (auto simp: sound_def tidy_def sock_do_def emit_def Let_def split: outcome.splits)

lemma sound_run_command: "tidy w \<Longrightarrow> sound (run_command c l w)"
  using tidy_announce[of w l]
  by (auto simp: sound_def tidy_def run_command_def subprocess_run_def emit_def Let_def
        interrupt_message_def split: outcome.splits)

lemma sound_get_local_ip_try: "tidy w \<Longrightarrow> sound (get_local_ip_try w)"
  unfolding get_local_ip_try_def
  by (intro sound_andThen sound_sock_do sound_Return)

lemma get_local_ip_try_raises:
  "get_local_ip_try w = (Raise e, w1) \<Longrightarrow> e = KeyboardInterrupt \<or> (\<exists>m. e = OSError m)"
  by (auto simp: get_local_ip_try_def andThen_def sock_do_def Let_def split: outcome.splits)

lemma sound_get_local_ip: "tidy w \<Longrightarrow> sound (get_local_ip w)"
  using sound_get_local_ip_try[of w] get_local_ip_try_raises[of w]
  by (auto simp: get_local_ip_def sound_def emit_def interrupt_message_def
      split: prod.splits result.splits)

lemma sound_create: "tidy w \<Longrightarrow> sound (create_virtual_environment v w)"
  unfolding create_virtual_environment_def
  by (intro sound_run_command tidy_emit) (simp_all add: interrupt_message_def)

lemma sound_activate: "tidy w \<Longrightarrow> sound (activate_virtual_environment v w)"
  unfolding activate_virtual_environment_def by (intro sound_run_command)

lemma sound_install: "tidy w \<Longrightarrow> sound (install_dependencies v r w)"
  unfolding install_dependencies_def
  by (intro sound_run_command tidy_emit) (simp_all add: interrupt_message_def)

lemma sound_run_initial: "tidy w \<Longrightarrow> sound (run_initial_management_commands v p w)"
  unfolding run_initial_management_commands_def
  by (intro sound_andThen sound_run_command tidy_emit) (simp_all add: interrupt_message_def)

lemma tidy_case_ip:
  "tidy w \<Longrightarrow>
   tidy (case ip of
           None \<Rightarrow> emit (Print no_ip_warning) w
         | Some s \<Rightarrow>
             if s \<noteq> [] then
               emit (Print (''You can access the server from other devices on the network using this IP: '' @ s @ '':8000'')) w
             else emit (Print no_ip_warning) w)"
  by (auto split: option.splits intro!: tidy_emit simp: interrupt_message_def no_ip_warning_def)

lemma sound_start: "tidy w \<Longrightarrow> sound (start_django_server v p w)"
  unfolding start_django_server_def
  by (intro sound_andThen sound_if sound_input sound_run_command sound_get_local_ip sound_Return
        tidy_emit tidy_case_ip)
     (simp_all add: interrupt_message_def)

lemma sound_exit0: "tidy w \<Longrightarrow> sound (Raise (SystemExit 0), emit (Print completed_without) w)"
  by (auto simp: sound_def tidy_def emit_def completed_without_def interrupt_message_def)

lemma sound_main_try: "tidy w \<Longrightarrow> sound (main_try a w)"
  unfolding main_try_def Let_def
  by (intro sound_andThen sound_if sound_input sound_run_initial sound_start sound_create
        sound_activate sound_install sound_Return sound_exit0 tidy_emit)
     (simp_all add: interrupt_message_def completed_ok_def)

lemma is_cpe_not_traceback: "is_cpe ev \<Longrightarrow> \<not> is_traceback ev"
  by (cases ev) simp_all

lemma tidy_start: "trace w = [] \<Longrightarrow> tidy w"
  by (simp add: tidy_def)

text \<open>
  Once \<open>run_command\<close> has reported a failed command, the process ends with status 1 and
  the report is the last thing it did.
\<close>

lemma failed_command_ends_script:
  assumes "trace w = []" and "ev \<in> set (trace (snd (script a w)))" and "is_cpe ev"
  shows "fst (script a w) = 1 \<and> is_cpe (last (trace (snd (script a w))))"
proof -
  obtain r w1 where m: "main_try a w = (r, w1)" by (cases "main_try a w")
  have s: "sound (r, w1)" using sound_main_try[OF tidy_start[OF assms(1)], of a] m by simp
  have "r = Raise (SystemExit 1)"
  proof (rule ccontr)
    assume n: "r \<noteq> Raise (SystemExit 1)"
    with s have "\<forall>ev \<in> set (trace w1). \<not> is_cpe ev" by (simp add: sound_def)
    moreover have "set (trace (snd (script a w))) \<subseteq> set (trace w1) \<union> {Print interrupt_message} \<union> {ev. is_traceback ev}"
      using m by (auto simp: script_def main_def emit_def split: result.splits exn.splits)
    ultimately show False using assms(2,3) is_cpe_not_traceback[of ev] by auto
  qed
  with s m show ?thesis by (simp add: script_def main_def sound_def)
qed

lemma script_trace:
  "trace (snd (script a w)) =
     (case main_try a w of
        (Raise KeyboardInterrupt, w1) \<Rightarrow> trace w1 @ [Print interrupt_message]
      | (Raise (SystemExit n), w1) \<Rightarrow> trace w1
      | (Raise e, w1) \<Rightarrow> trace w1 @ [Traceback e]
      | (Return u, w1) \<Rightarrow> trace w1)"
  by (simp add: script_def main_def emit_def split: prod.splits result.splits exn.splits)

lemma count_list_0: "x \<notin> set xs \<Longrightarrow> count_list xs x = 0"
  by (induction xs) auto

subsection \<open>Traces only grow; the launcher\<close>

lemma grows_refl: "grows w w"
  by (simp add: grows_def)

lemma grows_trans: "grows w w1 \<Longrightarrow> grows w1 w2 \<Longrightarrow> grows w w2"
  by (auto simp: grows_def)

lemma grows_emit: "grows w w1 \<Longrightarrow> grows w (emit ev w1)"
  by (auto simp: grows_def emit_def)

lemma andThen_frame:
  assumes "P w (snd m)" and "\<And>a w1. P w w1 \<Longrightarrow> P w (snd (f a w1))"
  shows "P w (snd (andThen m f))"
  using assms by (cases m) (auto simp: andThen_def split: result.splits)

lemma input_Line:
  "stdin w = Line s # rest \<Longrightarrow>
   input p w = (Return s, w\<lparr>stdin := rest, trace := trace w @ [Prompt p]\<rparr>)"
  by (simp add: input_def emit_def)

lemma input_trace: "\<exists>evs. trace (snd (input p w)) = trace w @ Prompt p # evs \<and> commands evs = []"
  by (auto simp: input_def emit_def Let_def split: list.splits keyed.splits)

lemma input_not_Line:
  "(\<forall>s rest. stdin w \<noteq> Line s # rest) \<Longrightarrow> \<exists>e. fst (input p w) = Raise e"
  by (cases "stdin w") (auto simp: input_def emit_def Let_def split: keyed.splits)

lemma grows_input: "grows w w1 \<Longrightarrow> grows w (snd (input p w1))"
  using input_trace[of p w1] by (auto simp: grows_def)

lemma grows_sock_do: "grows w w1 \<Longrightarrow> grows w (snd (sock_do c w1))"
  by (auto simp: grows_def sock_do_def emit_def Let_def split: outcome.splits)

lemma grows_run_command: "grows w w1 \<Longrightarrow> grows w (snd (run_command c l w1))"
  by (auto simp: grows_def run_command_def subprocess_run_def announce_def emit_def Let_def
      split: outcome.splits option.splits)

lemma grows_get_local_ip_try: "grows w w1 \<Longrightarrow> grows w (snd (get_local_ip_try w1))"
  unfolding get_local_ip_try_def
  by (intro andThen_frame[where P = grows] grows_sock_do) simp_all

lemma grows_get_local_ip: "grows w w1 \<Longrightarrow> grows w (snd (get_local_ip w1))"
  using grows_get_local_ip_try[of w w1]
  by (auto simp: get_local_ip_def intro: grows_emit split: prod.splits result.splits)

lemma sock_do_frame:
  "path_join (snd (sock_do c w)) = path_join w \<and> child (snd (sock_do c w)) = child w
   \<and> sock (snd (sock_do c w)) = sock w \<and> stdin (snd (sock_do c w)) = stdin w
   \<and> commands (trace (snd (sock_do c w))) = commands (trace w)"
  by (simp add: sock_do_def emit_def commands_append Let_def split: outcome.splits)

lemma same_env_sock_do: "same_env w w1 \<Longrightarrow> same_env w (snd (sock_do c w1))"
  using sock_do_frame[of c w1] by (simp add: same_env_def)

lemma get_local_ip_try_frame: "same_env w (snd (get_local_ip_try w))"
  unfolding get_local_ip_try_def
  by (intro andThen_frame[where P = same_env] same_env_sock_do) (simp_all add: same_env_def)

lemma get_local_ip_frame: "same_env w (snd (get_local_ip w))"
  using get_local_ip_try_frame[of w]
  by (auto simp: get_local_ip_def same_env_def emit_def commands_append split: prod.splits result.splits)

lemma get_local_ip_starts:
  "\<exists>evs. trace (snd (get_local_ip w)) = trace w @ Sock Socket # evs"
  by (auto simp: get_local_ip_def get_local_ip_try_def andThen_def sock_do_def emit_def Let_def
      split: outcome.splits prod.splits result.splits)

lemma start_declined:
  "stdin w = Line s # rest \<Longrightarrow> s \<noteq> ''y'' \<Longrightarrow> s \<noteq> ''Y'' \<Longrightarrow>
   start_django_server v p w = (Return (), w\<lparr>stdin := rest, trace := trace w @ [Prompt ask_start]\<rparr>)"
  by (simp add: start_django_server_def input_Line andThen_Return lower_y)

lemma start_local:
  "stdin w = Line s # Line t # rest \<Longrightarrow> s = ''y'' \<or> s = ''Y'' \<Longrightarrow> t \<noteq> ''y'' \<Longrightarrow> t \<noteq> ''Y'' \<Longrightarrow>
   start_django_server v p w =
     run_command (manage_command w v p ''runserver'') (Some ''Django server'')
       (w\<lparr>stdin := rest, trace := trace w @ [Prompt ask_start, Prompt ask_expose]\<rparr>)"
  by (simp add: start_django_server_def input_Line andThen_Return lower_y manage_command_def)

lemma start_exposed:
  "stdin w = Line s # Line t # rest \<Longrightarrow> s = ''y'' \<or> s = ''Y'' \<Longrightarrow> t = ''y'' \<or> t = ''Y'' \<Longrightarrow>
   start_django_server v p w =
     andThen (get_local_ip (w\<lparr>stdin := rest, trace := trace w @
                 [Prompt ask_start, Prompt ask_expose,
                  Print ''WARNING: Exposing the server to the network may pose security risks.'',
                  Print ''Please ensure proper security measures are in place.'']\<rparr>))
       (\<lambda>local_ip w.
          run_command (manage_command w v p ''runserver 0.0.0.0:80'') (Some ''Django server'')
            (case local_ip of
               None \<Rightarrow> emit (Print no_ip_warning) w
             | Some ip \<Rightarrow>
                 if ip \<noteq> [] then
                   emit (Print (''You can access the server from other devices on the network using this IP: '' @ ip @ '':8000'')) w
                 else emit (Print no_ip_warning) w))"
  by (simp add: start_django_server_def input_Line andThen_Return lower_y emit_def)

lemma start_asks_expose:
  assumes "stdin w = Line s # rest" and "s = ''y'' \<or> s = ''Y''"
  shows "\<exists>evs. trace (snd (start_django_server v p w)) = trace w @ [Prompt ask_start, Prompt ask_expose] @ evs"
proof -
  let ?w1 = "w\<lparr>stdin := rest, trace := trace w @ [Prompt ask_start]\<rparr>"
  let ?k = "\<lambda>expose_to_network w.
           if lower expose_to_network = ''y'' then
             andThen (get_local_ip
                        (emit (Print ''Please ensure proper security measures are in place.'')
                          (emit (Print ''WARNING: Exposing the server to the network may pose security risks.'') w)))
               (\<lambda>local_ip w.
                  run_command (manage_command w v p ''runserver 0.0.0.0:80'')
                    (Some ''Django server'')
                    (case local_ip of
                       None \<Rightarrow> emit (Print no_ip_warning) w
                     | Some ip \<Rightarrow>
                         if ip \<noteq> [] then
                           emit (Print (''You can access the server from other devices on the network using this IP: '' @ ip @ '':8000'')) w
                         else emit (Print no_ip_warning) w))
           else
             run_command (manage_command w v p ''runserver'')
               (Some ''Django server'') w"
  have eq: "start_django_server v p w = andThen (input ask_expose ?w1) ?k"
    using assms by (simp add: start_django_server_def input_Line andThen_Return lower_y)
  obtain evs where i: "trace (snd (input ask_expose ?w1)) = trace ?w1 @ Prompt ask_expose # evs"
    using input_trace[of ask_expose ?w1] by blast
  have "grows (snd (input ask_expose ?w1)) (snd (andThen (input ask_expose ?w1) ?k))"
    by (intro andThen_frame[where P = grows] grows_refl)
       (auto intro!: andThen_frame[where P = grows] grows_get_local_ip grows_run_command grows_emit
          split: option.splits)
  then obtain more where "trace (snd (andThen (input ask_expose ?w1) ?k)) = trace (snd (input ask_expose ?w1)) @ more"
    by (auto simp: grows_def)
  with i eq show ?thesis by simp
qed

lemma run_command_trace:
  "\<exists>ev. trace (snd (run_command c l w)) = trace (announce l w) @ [Run c, ev]
      \<and> (ev = Print ''Done!'' \<or> is_cpe ev \<or> (\<exists>e. ev = Raises e))"
  by (auto simp: run_command_def subprocess_run_def emit_def Let_def split: outcome.splits)

lemma manage_command_cong: "path_join w' = path_join w \<Longrightarrow> manage_command w' v p x = manage_command w v p x"
  by (simp add: manage_command_def)

lemma start_local_trace:
  assumes "stdin w = Line s # Line t # rest" and "s = ''y'' \<or> s = ''Y''" and "t \<noteq> ''y''" and "t \<noteq> ''Y''"
  shows "\<exists>ev. trace (snd (start_django_server v p w)) =
           trace w @ [Prompt ask_start, Prompt ask_expose, Print ''Running Django server...'',
                      Run (manage_command w v p ''runserver''), ev]
         \<and> (ev = Print ''Done!'' \<or> is_cpe ev \<or> (\<exists>e. ev = Raises e))"
  using run_command_trace[of "manage_command w v p ''runserver''" "Some ''Django server''"
          "w\<lparr>stdin := rest, trace := trace w @ [Prompt ask_start, Prompt ask_expose]\<rparr>"]
  by (simp add: start_local[OF assms] announce_def emit_def)

lemma get_local_ip_returns:
  assumes "\<forall>c. sock w c \<noteq> Interrupted"
  shows "\<exists>ip. fst (get_local_ip w) = Return ip"
proof -
  have "\<And>c. sock w c = Ok () \<or> (\<exists>m. sock w c = Failed m)"
    using assms by (metis outcome.exhaust old.unit.exhaust)
  then show ?thesis
    using assms
    by (auto simp: get_local_ip_def get_local_ip_try_def andThen_def sock_do_def emit_def Let_def
        split: outcome.splits)
qed

lemma get_local_ip_fails:
  assumes "\<forall>c. sock w c \<noteq> Interrupted" and "sock w c \<noteq> Ok ()"
  shows "fst (get_local_ip w) = Return None
       \<and> (\<exists>m. last (trace (snd (get_local_ip w))) = PrintError (OSError m))
       \<and> trace (snd (get_local_ip w)) \<noteq> []"
proof -
  obtain m where "sock w c = Failed m"
    using assms by (cases "sock w c") auto
  then show ?thesis
    using assms(1)
    by (cases c)
       (auto simp: get_local_ip_def get_local_ip_try_def andThen_def sock_do_def emit_def Let_def
        split: outcome.splits)
qed

lemma start_exposed_after:
  assumes "stdin w = Line s # Line t # rest" and "s = ''y'' \<or> s = ''Y''" and "t = ''y'' \<or> t = ''Y''"
    and "get_local_ip (w\<lparr>stdin := rest, trace := trace w @
                 [Prompt ask_start, Prompt ask_expose,
                  Print ''WARNING: Exposing the server to the network may pose security risks.'',
                  Print ''Please ensure proper security measures are in place.'']\<rparr>) = (r, w4)"
  shows "path_join w4 = path_join w \<and> commands (trace w4) = commands (trace w)
       \<and> (\<exists>evs. trace w4 = trace w @ [Prompt ask_start, Prompt ask_expose,
                  Print ''WARNING: Exposing the server to the network may pose security risks.'',
                  Print ''Please ensure proper security measures are in place.'', Sock Socket] @ evs)
       \<and> (\<forall>e. r = Raise e \<longrightarrow> start_django_server v p w = (Raise e, w4))
       \<and> (\<forall>ip. r = Return ip \<longrightarrow> start_django_server v p w =
             run_command (manage_command w v p ''runserver 0.0.0.0:80'') (Some ''Django server'')
               (case ip of
                  None \<Rightarrow> emit (Print no_ip_warning) w4
                | Some a \<Rightarrow>
                    if a \<noteq> [] then
                      emit (Print (''You can access the server from other devices on the network using this IP: '' @ a @ '':8000'')) w4
                    else emit (Print no_ip_warning) w4))"
proof -
  let ?w3 = "w\<lparr>stdin := rest, trace := trace w @
                 [Prompt ask_start, Prompt ask_expose,
                  Print ''WARNING: Exposing the server to the network may pose security risks.'',
                  Print ''Please ensure proper security measures are in place.'']\<rparr>"
  have f: "same_env ?w3 w4" using get_local_ip_frame[of ?w3] assms(4) by simp
  then have pj: "path_join w4 = path_join w" and cm: "commands (trace w4) = commands (trace w)"
    by (simp_all add: same_env_def commands_append)
  obtain evs where "trace w4 = trace ?w3 @ Sock Socket # evs"
    using get_local_ip_starts[of ?w3] assms(4) by auto
  then have tr: "\<exists>evs. trace w4 = trace w @ [Prompt ask_start, Prompt ask_expose,
                  Print ''WARNING: Exposing the server to the network may pose security risks.'',
                  Print ''Please ensure proper security measures are in place.'', Sock Socket] @ evs"
    by simp
  show ?thesis
    using pj cm tr assms(4)
    by (simp add: start_exposed[OF assms(1-3)] andThen_def manage_command_cong[OF pj])
qed

lemma commands_case_ip:
  "commands (trace (case ip of
                  None \<Rightarrow> emit (Print x) w
                | Some a \<Rightarrow> if a \<noteq> [] then emit (Print (y a)) w else emit (Print x) w))
   = commands (trace w)"
  by (simp add: emit_def commands_append split: option.splits)

lemma start_exposed_trace:
  assumes "stdin w = Line s # Line t # rest" and "s = ''y'' \<or> s = ''Y''" and "t = ''y'' \<or> t = ''Y''"
  shows "\<exists>evs. trace (snd (start_django_server v p w)) =
            trace w @ [Prompt ask_start, Prompt ask_expose,
                  Print ''WARNING: Exposing the server to the network may pose security risks.'',
                  Print ''Please ensure proper security measures are in place.'', Sock Socket] @ evs
          \<and> (commands evs = [] \<or> commands evs = [manage_command w v p ''runserver 0.0.0.0:80''])"
proof -
  let ?w3 = "w\<lparr>stdin := rest, trace := trace w @
                 [Prompt ask_start, Prompt ask_expose,
                  Print ''WARNING: Exposing the server to the network may pose security risks.'',
                  Print ''Please ensure proper security measures are in place.'']\<rparr>"
  let ?pre = "[Prompt ask_start, Prompt ask_expose,
                  Print ''WARNING: Exposing the server to the network may pose security risks.'',
                  Print ''Please ensure proper security measures are in place.'', Sock Socket]"
  obtain r w4 where g: "get_local_ip ?w3 = (r, w4)" by (cases "get_local_ip ?w3")
  note a = start_exposed_after[OF assms g, of v p]
  from a obtain evs where tr: "trace w4 = trace w @ ?pre @ evs" by blast
  from a have cm: "commands (trace w4) = commands (trace w)" by blast
  from tr cm have ce: "commands evs = []" by (simp add: commands_append)
  show ?thesis
  proof (cases r)
    case (Raise e)
    with a have "start_django_server v p w = (Raise e, w4)" by blast
    with tr ce show ?thesis by simp
  next
    case (Return ip)
    let ?w5 = "case ip of
                  None \<Rightarrow> emit (Print no_ip_warning) w4
                | Some a \<Rightarrow>
                    if a \<noteq> [] then
                      emit (Print (''You can access the server from other devices on the network using this IP: '' @ a @ '':8000'')) w4
                    else emit (Print no_ip_warning) w4"
    from Return a have eq: "start_django_server v p w =
        run_command (manage_command w v p ''runserver 0.0.0.0:80'') (Some ''Django server'') ?w5"
      by blast
    have "grows w4 ?w5" by (auto simp: grows_def emit_def split: option.splits)
    then have "grows w4 (snd (start_django_server v p w))"
      unfolding eq by (rule grows_run_command)
    then obtain more where m: "trace (snd (start_django_server v p w)) = trace w4 @ more"
      by (auto simp: grows_def)
    have "commands (trace (snd (start_django_server v p w))) =
            commands (trace w4) @ [manage_command w v p ''runserver 0.0.0.0:80'']"
      unfolding eq by (simp add: run_command_commands commands_case_ip)
    with m have "commands more = [manage_command w v p ''runserver 0.0.0.0:80'']"
      by (simp add: commands_append)
    with m tr ce have "trace (snd (start_django_server v p w)) = trace w @ ?pre @ (evs @ more)
        \<and> commands (evs @ more) = [manage_command w v p ''runserver 0.0.0.0:80'']"
      by (simp add: commands_append)
    then show ?thesis by blast
  qed
qed

subsection \<open>The branches of \<open>main\<close>\<close>

lemma venv_of_update [simp]:
  "venv_of (w\<lparr>stdin := x\<rparr>) = venv_of w" "venv_of (w\<lparr>trace := y\<rparr>) = venv_of w"
  by (simp_all add: venv_of_def)

lemma main_try_fresh:
  "\<not> path_exists w (venv_of w) \<Longrightarrow> main_try a w = setup_steps a (venv_of w) w"
  by (simp add: main_try_def setup_steps_def andThen_Return Let_def)

lemma main_try_reinstall:
  "path_exists w (venv_of w) \<Longrightarrow> stdin w = Line s # rest \<Longrightarrow> s \<noteq> ''n'' \<Longrightarrow> s \<noteq> ''N'' \<Longrightarrow>
   main_try a w = setup_steps a (venv_of w) (w\<lparr>stdin := rest, trace := trace w @ [Prompt ask_reinstall]\<rparr>)"
  by (simp add: main_try_def setup_steps_def andThen_Return Let_def input_Line lower_n)

lemma main_try_no_answer:
  "path_exists w (venv_of w) \<Longrightarrow> \<forall>s rest. stdin w \<noteq> Line s # rest \<Longrightarrow>
   (\<exists>e. fst (main_try a w) = Raise e) \<and> commands (trace (snd (main_try a w))) = commands (trace w)"
proof -
  assume ex: "path_exists w (venv_of w)" and nl: "\<forall>s rest. stdin w \<noteq> Line s # rest"
  obtain e where e: "fst (input ask_reinstall w) = Raise e" using input_not_Line[OF nl] by blast
  obtain evs where t: "trace (snd (input ask_reinstall w)) = trace w @ Prompt ask_reinstall # evs"
    and c: "commands evs = []" using input_trace[of ask_reinstall w] by blast
  obtain w1 where i: "input ask_reinstall w = (Raise e, w1)"
    using e by (cases "input ask_reinstall w") auto
  with t c have "commands (trace w1) = commands (trace w)" by (simp add: commands_append)
  with ex i show ?thesis by (simp add: main_try_def Let_def andThen_Raise)
qed

lemma main_try_skip_decline:
  "path_exists w (venv_of w) \<Longrightarrow> stdin w = Line s # Line t # rest \<Longrightarrow> s = ''n'' \<or> s = ''N'' \<Longrightarrow>
   t \<noteq> ''y'' \<Longrightarrow> t \<noteq> ''Y'' \<Longrightarrow>
   main_try a w = (Raise (SystemExit 0),
     w\<lparr>stdin := rest, trace := trace w @ [Prompt ask_reinstall, Prompt ask_run_anyway, Print completed_without]\<rparr>)"
  by (simp add: main_try_def andThen_Return andThen_Raise Let_def input_Line lower_n lower_y emit_def)

lemma andThen_exits:
  "andThen (andThen m (\<lambda>u w. (Raise e, g w))) k = andThen m (\<lambda>u w. (Raise e, g w))"
  by (cases m) (auto simp: andThen_def split: result.splits)

lemma main_try_skip_run:
  "path_exists w (venv_of w) \<Longrightarrow> stdin w = Line s # Line t # rest \<Longrightarrow> s = ''n'' \<or> s = ''N'' \<Longrightarrow>
   t = ''y'' \<or> t = ''Y'' \<Longrightarrow>
   main_try a w =
     andThen
       (andThen (run_initial_management_commands (venv_of w) (project_dir a)
                  (w\<lparr>stdin := rest, trace := trace w @ [Prompt ask_reinstall, Prompt ask_run_anyway]\<rparr>))
          (\<lambda>u w'. start_django_server (venv_of w) (project_dir a) w'))
       (\<lambda>u w'. (Raise (SystemExit 0), emit (Print completed_without) w'))"
  by (simp add: main_try_def andThen_Return andThen_Raise Let_def input_Line lower_n lower_y
      andThen_exits)

lemma script_of_main_try:
  "main_try a w = (Raise (SystemExit n), w1) \<Longrightarrow> script a w = (n, w1)"
  "main_try a w = (Return u, w1) \<Longrightarrow> script a w = (0, w1)"
  by (simp_all add: script_def main_def)

lemma run_initial_ok:
  assumes "\<forall>n c. child w n c = Ok 0"
  shows "run_initial_management_commands v p w =
           (Return (), w\<lparr>trace := trace w @ bootstrap_events w v p\<rparr>)"
  using assms
  by (simp add: run_initial_management_commands_def run_command_ok andThen_Return announce_def
      emit_def bootstrap_events_def manage_command_def)

lemma setup_steps_ok:
  assumes "\<forall>n c. child w n c = Ok 0"
  shows "setup_steps a v w =
           andThen (start_django_server v (project_dir a)
                      (w\<lparr>trace := trace w @ provision_events w v (requirements a)
                                      @ bootstrap_events w v (project_dir a)\<rparr>))
             (\<lambda>u w. (Return (), emit (Print completed_ok) w))"
  using assms
  by (simp add: setup_steps_def create_virtual_environment_def activate_virtual_environment_def
      install_dependencies_def run_command_ok run_initial_ok andThen_Return announce_def emit_def
      provision_events_def bootstrap_events_def manage_command_def activate_command_def)

lemma commands_provision:
  "commands (provision_events w v r) = [create_command v, activate_command w v, install_command v r]"
  by (simp add: provision_events_def)

lemma commands_bootstrap:
  "commands (bootstrap_events w v p) =
     [manage_command w v p ''makemigrations'', manage_command w v p ''migrate'',
      manage_command w v p ''collectstatic --noinput'']"
  by (simp add: bootstrap_events_def)

subsection \<open>How the parts of \<open>main\<close> begin\<close>

lemma andThen_grows:
  assumes "\<And>a w1. grows w1 (snd (f a w1))"
  shows "grows (snd m) (snd (andThen m f))"
  by (rule andThen_frame[where P = grows]) (auto intro: grows_refl grows_trans assms)

lemma andThen_starts:
  assumes "\<exists>evs. trace (snd m) = xs @ evs" and "\<And>a w1. grows w1 (snd (f a w1))"
  shows "\<exists>evs. trace (snd (andThen m f)) = xs @ evs"
proof -
  from assms(1) obtain evs where "trace (snd m) = xs @ evs" ..
  moreover from andThen_grows[of f m, OF assms(2)] obtain more where
    "trace (snd (andThen m f)) = trace (snd m) @ more" by (auto simp: grows_def)
  ultimately show ?thesis by simp
qed

lemma grows_if:
  "(b \<Longrightarrow> grows w (snd p)) \<Longrightarrow> (\<not> b \<Longrightarrow> grows w (snd q)) \<Longrightarrow> grows w (snd (if b then p else q))"
  by simp

lemma grows_case_ip:
  "grows w w1 \<Longrightarrow>
   grows w (case ip of
              None \<Rightarrow> emit (Print x) w1
            | Some a \<Rightarrow> if a \<noteq> [] then emit (Print (y a)) w1 else emit (Print x) w1)"
  by (auto split: option.splits intro: grows_emit)

lemma grows_create: "grows w w1 \<Longrightarrow> grows w (snd (create_virtual_environment v w1))"
  unfolding create_virtual_environment_def
  by (intro grows_run_command grows_emit)

lemma grows_activate: "grows w w1 \<Longrightarrow> grows w (snd (activate_virtual_environment v w1))"
  unfolding activate_virtual_environment_def by (intro grows_run_command)

lemma grows_install: "grows w w1 \<Longrightarrow> grows w (snd (install_dependencies v r w1))"
  unfolding install_dependencies_def
  by (intro grows_run_command grows_emit)

lemma grows_run_initial: "grows w w1 \<Longrightarrow> grows w (snd (run_initial_management_commands v p w1))"
  unfolding run_initial_management_commands_def
  by (intro andThen_frame[where P = grows] grows_run_command grows_emit)

lemma grows_start: "grows w w1 \<Longrightarrow> grows w (snd (start_django_server v p w1))"
  unfolding start_django_server_def
  by (intro andThen_frame[where P = grows] grows_if grows_input grows_run_command
        grows_get_local_ip grows_case_ip grows_emit)
     simp_all

lemma script_grows: "grows (snd (main_try a w)) (snd (script a w))"
  by (auto simp: grows_def script_trace split: prod.splits result.splits exn.splits)

lemma create_starts:
  "\<exists>evs. trace (snd (create_virtual_environment v w)) =
      (trace w @ [Print ''Creating a virtual environment...'', Run (create_command v)]) @ evs"
  using run_command_trace[of "create_command v" None "emit (Print ''Creating a virtual environment...'') w"]
  by (auto simp: create_virtual_environment_def announce_def emit_def)

lemma setup_steps_starts:
  "\<exists>evs. trace (snd (setup_steps a v w)) =
      (trace w @ [Print ''Creating a virtual environment...'', Run (create_command v)]) @ evs"
  unfolding setup_steps_def
proof (rule andThen_starts[OF create_starts])
  fix u w1
  show "grows w1 (snd (andThen (activate_virtual_environment v w1) (\<lambda>u w.
     andThen (install_dependencies v (requirements a) w) (\<lambda>u w.
     andThen (run_initial_management_commands v (project_dir a) w) (\<lambda>u w.
     andThen (start_django_server v (project_dir a) w) (\<lambda>u w.
       (Return (), emit (Print completed_ok) w)))))))"
    by (intro andThen_frame[where P = grows] grows_activate grows_install grows_run_initial
          grows_start grows_refl)
       (auto intro: grows_emit)
qed

lemma run_initial_starts:
  "\<exists>evs. trace (snd (run_initial_management_commands v p w)) =
      (trace w @ [Print ''Running initial management commands...'', Print ''Running makemigrations...'',
                  Run (manage_command w v p ''makemigrations'')]) @ evs"
  unfolding run_initial_management_commands_def
proof (rule andThen_starts)
  show "\<exists>evs. trace (snd (run_command (manage_command w v p ''makemigrations'') (Some ''makemigrations'')
           (emit (Print ''Running initial management commands...'') w))) =
        (trace w @ [Print ''Running initial management commands...'', Print ''Running makemigrations...'',
                  Run (manage_command w v p ''makemigrations'')]) @ evs"
    using run_command_trace[of "manage_command w v p ''makemigrations''" "Some ''makemigrations''"
        "emit (Print ''Running initial management commands...'') w"]
    by (auto simp: announce_def emit_def)
next
  fix a w1
  show "grows w1 (snd (andThen (run_command (manage_command w1 v p ''migrate'') (Some ''migrate'') w1)
          (\<lambda>u w. run_command (manage_command w v p ''collectstatic --noinput'') (Some ''collectstatic'') w)))"
    by (intro andThen_frame[where P = grows] grows_run_command grows_refl)
qed

lemma andThen_assoc: "andThen (andThen m f) k = andThen m (\<lambda>a w. andThen (f a w) k)"
  by (cases m) (auto simp: andThen_def split: result.splits)

lemma main_try_skip:
  "path_exists w (venv_of w) \<Longrightarrow> stdin w = Line s # rest \<Longrightarrow> s = ''n'' \<or> s = ''N'' \<Longrightarrow>
   main_try a w =
     andThen (input ask_run_anyway (w\<lparr>stdin := rest, trace := trace w @ [Prompt ask_reinstall]\<rparr>))
       (\<lambda>run_management_commands w'.
          andThen
            (if lower run_management_commands = ''y'' then
               andThen (run_initial_management_commands (venv_of w) (project_dir a) w') (\<lambda>u w'.
                 start_django_server (venv_of w) (project_dir a) w')
             else (Return (), w'))
            (\<lambda>u w'. (Raise (SystemExit 0), emit (Print completed_without) w')))"
  by (simp add: main_try_def Let_def input_Line lower_n andThen_Return andThen_assoc andThen_Raise)

subsection \<open>A command that does not succeed\<close>

lemma run_command_stops:
  assumes "child w (length (commands (trace w))) c \<noteq> Ok 0"
  shows "(\<exists>e. fst (run_command c l w) = Raise e)
       \<and> (\<forall>rc. child w (length (commands (trace w))) c = Ok rc \<longrightarrow>
             fst (run_command c l w) = Raise (SystemExit 1)
           \<and> last (trace (snd (run_command c l w))) = PrintError (CalledProcessError rc c))
       \<and> commands (trace (snd (run_command c l w))) = commands (trace w) @ [c]"
  using assms
  by (auto simp: run_command_def subprocess_run_def announce_def emit_def commands_append Let_def
      split: outcome.splits option.splits)

lemma emit_fields:
  "child (emit ev w) = child w" "path_join (emit ev w) = path_join w"
  "commands (trace (emit ev w)) = commands (trace w) @ commands [ev]"
  by (simp_all add: emit_def commands_append)

lemma announce_fields:
  "child (announce l w) = child w" "path_join (announce l w) = path_join w"
  "commands (trace (announce l w)) = commands (trace w)"
  by (simp_all add: emit_def announce_def commands_append split: option.splits)

subsection \<open>The commands of a whole run\<close>

lemma script_commands:
  "commands (trace (snd (script a w))) = commands (trace (snd (main_try a w)))"
  by (simp add: script_trace commands_append split: prod.splits result.splits exn.splits)

lemma commands_grows: "grows w w' \<Longrightarrow> \<exists>more. commands (trace w') = commands (trace w) @ more"
  by (auto simp: grows_def commands_append)

lemma step_cases:
  "(child w (length (commands (trace w))) c = Ok 0 \<longrightarrow>
      andThen (run_command c l w) f = f () (emit (Print ''Done!'') (emit (Run c) (announce l w))))
   \<and> (child w (length (commands (trace w))) c \<noteq> Ok 0 \<longrightarrow>
      commands (trace (snd (andThen (run_command c l w) f))) = commands (trace w) @ [c])"
proof (intro conjI impI)
  assume "child w (length (commands (trace w))) c = Ok 0"
  then show "andThen (run_command c l w) f = f () (emit (Print ''Done!'') (emit (Run c) (announce l w)))"
    by (simp add: run_command_ok andThen_Return)
next
  assume h: "child w (length (commands (trace w))) c \<noteq> Ok 0"
  from run_command_stops[OF h, of l] obtain e where
    e: "fst (run_command c l w) = Raise e"
    and cm: "commands (trace (snd (run_command c l w))) = commands (trace w) @ [c]" by blast
  from e have "andThen (run_command c l w) f = (Raise e, snd (run_command c l w))"
    by (cases "run_command c l w") (simp add: andThen_Raise)
  with cm show "commands (trace (snd (andThen (run_command c l w) f))) = commands (trace w) @ [c]"
    by simp
qed

lemma setup_steps_prefix:
  "\<exists>cs. commands (trace (snd (setup_steps a v w))) = commands (trace w) @ cs
      \<and> take 3 cs = take (length cs)
           [create_command v, activate_command w v, install_command v (requirements a)]"
proof -
  let ?c = "create_command v" and ?a = "activate_command w v"
  let ?i = "install_command v (requirements a)"
  let ?w0 = "emit (Print ''Creating a virtual environment...'') w"
  let ?w1 = "emit (Print ''Done!'') (emit (Run ?c) (announce None ?w0))"
  let ?w2 = "emit (Print ''Done!'') (emit (Run ?a) (announce None ?w1))"
  let ?w2' = "emit (Print ''Installing project dependencies...'') ?w2"
  let ?w3 = "emit (Print ''Done!'') (emit (Run ?i) (announce None ?w2'))"
  let ?k3 = "\<lambda>u w. andThen (run_initial_management_commands v (project_dir a) w) (\<lambda>u w.
               andThen (start_django_server v (project_dir a) w) (\<lambda>u w.
                 (Return (), emit (Print completed_ok) w)))"
  let ?k2 = "\<lambda>u w. andThen (install_dependencies v (requirements a) w) ?k3"
  let ?k1 = "\<lambda>u w. andThen (activate_virtual_environment v w) ?k2"
  have s0: "setup_steps a v w = andThen (run_command ?c None ?w0) ?k1"
    by (simp add: setup_steps_def create_virtual_environment_def)
  have f0: "child ?w0 = child w" "commands (trace ?w0) = commands (trace w)"
    by (simp_all add: emit_fields)
  have f1: "child ?w1 = child w" "commands (trace ?w1) = commands (trace w) @ [?c]"
    "activate_command ?w1 v = ?a"
    by (simp_all add: emit_fields announce_fields activate_command_def)
  have f2: "child ?w2' = child w" "commands (trace ?w2') = commands (trace w) @ [?c, ?a]"
    by (simp_all add: emit_fields announce_fields)
  have f3: "commands (trace ?w3) = commands (trace w) @ [?c, ?a, ?i]"
    by (simp add: emit_fields announce_fields)
  note c0 = step_cases[of ?w0 ?c None ?k1, folded s0]
  show ?thesis
  proof (cases "child ?w0 (length (commands (trace ?w0))) ?c = Ok 0")
    case False
    with c0 have "commands (trace (snd (setup_steps a v w))) = commands (trace w) @ [?c]"
      by (simp add: f0)
    then show ?thesis by simp
  next
    case True
    with c0 have s1: "setup_steps a v w = andThen (run_command ?a None ?w1) ?k2"
      by (simp add: activate_virtual_environment_def f1)
    note c1 = step_cases[of ?w1 ?a None ?k2, folded s1]
    show ?thesis
    proof (cases "child ?w1 (length (commands (trace ?w1))) ?a = Ok 0")
      case False
      with c1 have "commands (trace (snd (setup_steps a v w))) = commands (trace w) @ [?c, ?a]"
        by (simp add: f1)
      then show ?thesis by simp
    next
      case True
      with c1 have s2: "setup_steps a v w = andThen (run_command ?i None ?w2') ?k3"
        by (simp add: install_dependencies_def)
      note c2 = step_cases[of ?w2' ?i None ?k3, folded s2]
      show ?thesis
      proof (cases "child ?w2' (length (commands (trace ?w2'))) ?i = Ok 0")
        case False
        with c2 have "commands (trace (snd (setup_steps a v w))) = commands (trace w) @ [?c, ?a, ?i]"
          by (simp add: f2)
        then show ?thesis by simp
      next
        case True
        with c2 have s3: "setup_steps a v w = ?k3 () ?w3" by simp
        have "grows ?w3 (snd (?k3 () ?w3))"
          by (intro andThen_frame[where P = grows] grows_run_initial grows_start grows_refl)
             (auto intro: grows_emit)
        from commands_grows[OF this] obtain more where
          "commands (trace (snd (setup_steps a v w))) = commands (trace ?w3) @ more"
          unfolding s3 by blast
        then have "commands (trace (snd (setup_steps a v w))) = commands (trace w) @ ([?c, ?a, ?i] @ more)"
          by (simp add: f3)
        moreover have "take 3 ([?c, ?a, ?i] @ more) = take (length ([?c, ?a, ?i] @ more)) [?c, ?a, ?i]"
          by simp
        ultimately show ?thesis by blast
      qed
    qed
  qed
qed

lemma andThen_input_raises:
  "\<forall>s rest. stdin w \<noteq> Line s # rest \<Longrightarrow>
   commands (trace (snd (andThen (input p w) f))) = commands (trace w)"
proof -
  assume nl: "\<forall>s rest. stdin w \<noteq> Line s # rest"
  obtain e where e: "fst (input p w) = Raise e" using input_not_Line[OF nl] by blast
  obtain evs where t: "trace (snd (input p w)) = trace w @ Prompt p # evs" and c: "commands evs = []"
    using input_trace[of p w] by blast
  from e have "andThen (input p w) f = (Raise e, snd (input p w))"
    by (cases "input p w") (simp add: andThen_Raise)
  with t c show ?thesis by (simp add: commands_append)
qed

lemma start_commands_declined:
  "stdin w = Line s # rest \<Longrightarrow> s \<noteq> ''y'' \<Longrightarrow> s \<noteq> ''Y'' \<Longrightarrow>
   commands (trace (snd (start_django_server v p w))) = commands (trace w)"
  by (simp add: start_declined commands_append)

lemma start_commands_local:
  "stdin w = Line s # Line t # rest \<Longrightarrow> s = ''y'' \<or> s = ''Y'' \<Longrightarrow> t \<noteq> ''y'' \<Longrightarrow> t \<noteq> ''Y'' \<Longrightarrow>
   commands (trace (snd (start_django_server v p w))) =
     commands (trace w) @ [manage_command w v p ''runserver'']"
  by (simp add: start_local run_command_commands commands_append)

lemma start_commands_exposed_options:
  assumes "stdin w = Line s # Line t # rest" and "s = ''y'' \<or> s = ''Y''" and "t = ''y'' \<or> t = ''Y''"
  shows "commands (trace (snd (start_django_server v p w))) = commands (trace w)
       \<or> commands (trace (snd (start_django_server v p w))) =
           commands (trace w) @ [manage_command w v p ''runserver 0.0.0.0:80'']"
  using start_exposed_trace[OF assms, of v p] by (auto simp: commands_append)

lemma start_commands_exposed:
  assumes "stdin w = Line s # Line t # rest" and "s = ''y'' \<or> s = ''Y''" and "t = ''y'' \<or> t = ''Y''"
    and "\<forall>c. sock w c \<noteq> Interrupted"
  shows "commands (trace (snd (start_django_server v p w))) =
           commands (trace w) @ [manage_command w v p ''runserver 0.0.0.0:80'']"
proof -
  let ?w3 = "w\<lparr>stdin := rest, trace := trace w @
                 [Prompt ask_start, Prompt ask_expose,
                  Print ''WARNING: Exposing the server to the network may pose security risks.'',
                  Print ''Please ensure proper security measures are in place.'']\<rparr>"
  have ni: "\<forall>c. sock ?w3 c \<noteq> Interrupted" using assms(4) by simp
  obtain r w4 where g: "get_local_ip ?w3 = (r, w4)" by (cases "get_local_ip ?w3")
  from get_local_ip_returns[OF ni] g obtain ip where r: "r = Return ip" by auto
  note a = start_exposed_after[OF assms(1-3) g, of v p]
  from a r have eq: "start_django_server v p w =
      run_command (manage_command w v p ''runserver 0.0.0.0:80'') (Some ''Django server'')
        (case ip of
           None \<Rightarrow> emit (Print no_ip_warning) w4
         | Some a \<Rightarrow>
             if a \<noteq> [] then
               emit (Print (''You can access the server from other devices on the network using this IP: '' @ a @ '':8000'')) w4
             else emit (Print no_ip_warning) w4)"
    by blast
  from a have "commands (trace w4) = commands (trace w)" by blast
  then show ?thesis unfolding eq by (simp add: run_command_commands commands_case_ip)
qed

lemma start_commands_options:
  "commands (trace (snd (start_django_server v p w))) = commands (trace w)
   \<or> commands (trace (snd (start_django_server v p w))) =
       commands (trace w) @ [manage_command w v p ''runserver'']
   \<or> commands (trace (snd (start_django_server v p w))) =
       commands (trace w) @ [manage_command w v p ''runserver 0.0.0.0:80'']"
proof (cases "\<exists>s rest. stdin w = Line s # rest")
  case False
  then have "commands (trace (snd (start_django_server v p w))) = commands (trace w)"
    unfolding start_django_server_def by (intro andThen_input_raises) simp
  then show ?thesis by simp
next
  case True
  then obtain s rest1 where st: "stdin w = Line s # rest1" by blast
  show ?thesis
  proof (cases "s = ''y'' \<or> s = ''Y''")
    case False
    then show ?thesis using start_commands_declined[OF st, of v p] by simp
  next
    case sy: True
    let ?w1 = "w\<lparr>stdin := rest1, trace := trace w @ [Prompt ask_start]\<rparr>"
    show ?thesis
    proof (cases "\<exists>t rest. rest1 = Line t # rest")
      case False
      then have nl: "\<forall>t rest. stdin ?w1 \<noteq> Line t # rest" by simp
      have "commands (trace (snd (start_django_server v p w))) = commands (trace ?w1)"
        using sy
        by (simp add: start_django_server_def input_Line[OF st] andThen_Return lower_y
            andThen_input_raises[OF nl])
      then show ?thesis by (simp add: commands_append)
    next
      case True
      then obtain t rest where st2: "stdin w = Line s # Line t # rest" using st by auto
      show ?thesis
      proof (cases "t = ''y'' \<or> t = ''Y''")
        case False
        then show ?thesis using start_commands_local[OF st2 sy, of v p] by simp
      next
        case True
        then show ?thesis using start_commands_exposed_options[OF st2 sy, of v p] by blast
      qed
    qed
  qed
qed

lemma commands_final_print:
  "commands (trace (snd (andThen m (\<lambda>u w. (r, emit (Print s) w))))) = commands (trace (snd m))"
  by (cases m) (simp add: andThen_def emit_def commands_append split: result.splits)

section \<open>The claims\<close>

text \<open>
  Claim C2, as stated, fails where \<open>subprocess.run\<close> itself raises: the shell cannot be
  started, the exception is an \<open>OSError\<close>, and \<open>run_command\<close>, whose handler names
  \<open>CalledProcessError\<close> only, prints nothing and hands the \<open>OSError\<close> to its caller.
\<close>

theorem run_command_unhandled_failure:
  "run_command ''pip list'' (Some ''listing'') no_shell =
     (Raise (OSError ''cannot start the shell''),
      no_shell\<lparr>trace := [Print ''Running listing...'', Run ''pip list'',
                          Raises (OSError ''cannot start the shell'')]\<rparr>)"
  by (simp add: run_command_def subprocess_run_def announce_def emit_def no_shell_def sample_def)

text \<open>
  Claim C2, amended. For every command string and optional label: when the child ends with
  status zero, \<open>run_command\<close> prints the confirmation and returns normally; when the child ends
  with another status, it prints the error and raises \<open>SystemExit 1\<close>, and in a run of the
  script a printed command error means that the process ends with status 1. An exception
  that \<open>subprocess.run\<close> raises for another reason (the shell could not be started, the wait
  was interrupted) is not caught: it passes to the caller as it is. In every case the
  command is run exactly once.
\<close>

theorem run_command_contract:
  "(child w (length (commands (trace w))) command = Ok 0 \<longrightarrow>
      run_command command label w =
        (Return (), emit (Print ''Done!'') (emit (Run command) (announce label w))))
   \<and> (\<forall>rc. child w (length (commands (trace w))) command = Ok rc \<and> rc \<noteq> 0 \<longrightarrow>
      run_command command label w =
        (Raise (SystemExit 1),
         emit (PrintError (CalledProcessError rc command)) (emit (Run command) (announce label w))))
   \<and> (\<forall>m. child w (length (commands (trace w))) command = Failed m \<longrightarrow>
      run_command command label w =
        (Raise (OSError m), emit (Raises (OSError m)) (emit (Run command) (announce label w))))
   \<and> (child w (length (commands (trace w))) command = Interrupted \<longrightarrow>
      run_command command label w =
        (Raise KeyboardInterrupt,
         emit (Raises KeyboardInterrupt) (emit (Run command) (announce label w))))
   \<and> commands (trace (snd (run_command command label w))) = commands (trace w) @ [command]
   \<and> (\<forall>a w0 rc c. trace w0 = [] \<and> PrintError (CalledProcessError rc c) \<in> set (trace (snd (script a w0)))
        \<longrightarrow> fst (script a w0) = 1)"
proof (intro conjI allI impI)
  fix a w0 rc c
  assume "trace w0 = [] \<and> PrintError (CalledProcessError rc c) \<in> set (trace (snd (script a w0)))"
  then show "fst (script a w0) = 1"
    using failed_command_ends_script[of w0 "PrintError (CalledProcessError rc c)" a] by simp
qed (auto simp: run_command_ok run_command_fail run_command_commands run_command_raises)

theorem run_command_contract_witness:
  "run_command ''pip list'' (Some ''listing'') sample =
     (Return (), emit (Print ''Done!'') (emit (Run ''pip list'') (announce (Some ''listing'') sample)))
   \<and> run_command ''pip list'' None (sample\<lparr>child := \<lambda>n c. Ok 2\<rparr>) =
     (Raise (SystemExit 1),
      emit (PrintError (CalledProcessError 2 ''pip list''))
        (emit (Run ''pip list'') (announce None (sample\<lparr>child := \<lambda>n c. Ok 2\<rparr>))))
   \<and> fst (script sample_args (sample\<lparr>child := \<lambda>n c. Ok 2\<rparr>)) = 1
   \<and> fst (run_command ''pip list'' None (sample\<lparr>child := \<lambda>n c. Interrupted\<rparr>)) = Raise KeyboardInterrupt"
proof -
  let ?bad = "sample\<lparr>child := \<lambda>n c. Ok 2\<rparr>"
  have t: "trace ?bad = []" by (simp add: sample_def)
  have mem: "PrintError (CalledProcessError 2 (create_command (venv_of ?bad)))
          \<in> set (trace (snd (script sample_args ?bad)))"
    by (simp add: script_def main_def main_try_def Let_def sample_def venv_of_def
        create_virtual_environment_def andThen_def emit_def run_command_def subprocess_run_def
        announce_def)
  note ok = run_command_contract[of sample "''pip list''" "Some ''listing''"]
  note bad = run_command_contract[of ?bad "''pip list''" None]
  note intr = run_command_contract[of "sample\<lparr>child := \<lambda>n c. Interrupted\<rparr>" "''pip list''" None]
  have a: "run_command ''pip list'' (Some ''listing'') sample =
     (Return (), emit (Print ''Done!'') (emit (Run ''pip list'') (announce (Some ''listing'') sample)))"
    using ok by (simp add: sample_def)
  have b: "run_command ''pip list'' None ?bad =
     (Raise (SystemExit 1),
      emit (PrintError (CalledProcessError 2 ''pip list'')) (emit (Run ''pip list'') (announce None ?bad)))"
    using bad by (simp add: sample_def)
  have c: "fst (script sample_args ?bad) = 1"
    using bad t mem by blast
  have d: "fst (run_command ''pip list'' None (sample\<lparr>child := \<lambda>n c. Interrupted\<rparr>)) = Raise KeyboardInterrupt"
    using intr by (simp add: sample_def)
  from a b c d show ?thesis by simp
qed

text \<open>
  Claim C9. In a run of the script, a \<open>KeyboardInterrupt\<close> raised by any library call
  (a prompt, a child process, a socket call) ends in the one handler of \<open>main\<close>: \<open>main\<close>
  raises \<open>SystemExit 1\<close>, the process ends with status 1, the message of the handler is
  the last thing printed and is printed once, and the interpreter reports no traceback.
  Without an interrupt the message is not printed.
\<close>

theorem interrupt_caught_at_top:
  assumes "trace w = []"
  shows "(Raises KeyboardInterrupt \<in> set (trace (snd (script a w))) \<longrightarrow>
            fst (main a w) = Raise (SystemExit 1) \<and> fst (script a w) = 1
          \<and> last (trace (snd (script a w))) = Print interrupt_message
          \<and> count_list (trace (snd (script a w))) (Print interrupt_message) = 1
          \<and> (\<forall>e. Traceback e \<notin> set (trace (snd (script a w)))))
       \<and> (Raises KeyboardInterrupt \<notin> set (trace (snd (script a w))) \<longrightarrow>
            Print interrupt_message \<notin> set (trace (snd (script a w))))"
proof -
  obtain r w1 where m: "main_try a w = (r, w1)" by (cases "main_try a w")
  have s: "sound (r, w1)" using sound_main_try[OF tidy_start[OF assms], of a] m by simp
  have nomsg: "Print interrupt_message \<notin> set (trace w1)" using s by (auto simp: sound_def)
  have notb: "\<forall>e. Traceback e \<notin> set (trace w1)" using s by (auto simp: sound_def)
  show ?thesis
  proof (cases "r = Raise KeyboardInterrupt")
    case True
    with s have "trace w1 \<noteq> [] \<and> last (trace w1) = Raises KeyboardInterrupt"
      by (simp add: sound_def)
    then have "Raises KeyboardInterrupt \<in> set (trace w1)"
      using last_in_set[of "trace w1"] by auto
    with True m nomsg notb show ?thesis
      by (simp add: script_trace script_def main_def emit_def count_list_0 interrupt_message_def)
  next
    case False
    with s have "Raises KeyboardInterrupt \<notin> set (trace w1)" by (simp add: sound_def)
    with False m nomsg show ?thesis
      by (auto simp: script_trace interrupt_message_def split: result.splits exn.splits)
  qed
qed

theorem interrupt_caught_at_top_witness:
  "Raises KeyboardInterrupt \<in> set (trace (snd (script sample_args (sample\<lparr>stdin := [CtrlC]\<rparr>))))
   \<and> fst (script sample_args (sample\<lparr>stdin := [CtrlC]\<rparr>)) = 1
   \<and> last (trace (snd (script sample_args (sample\<lparr>stdin := [CtrlC]\<rparr>)))) = Print interrupt_message
   \<and> Raises KeyboardInterrupt \<in> set (trace (snd (script sample_args
        (sample\<lparr>stdin := [Line ''y'', Line ''y''], sock := \<lambda>c. Interrupted\<rparr>))))
   \<and> fst (script sample_args (sample\<lparr>stdin := [Line ''y'', Line ''y''], sock := \<lambda>c. Interrupted\<rparr>)) = 1"
proof -
  let ?w1 = "sample\<lparr>stdin := [CtrlC]\<rparr>"
  let ?w2 = "sample\<lparr>stdin := [Line ''y'', Line ''y''], sock := \<lambda>c. Interrupted\<rparr>"
  have t1: "trace ?w1 = []" and t2: "trace ?w2 = []" by (simp_all add: sample_def)
  have m1: "Raises KeyboardInterrupt \<in> set (trace (snd (script sample_args ?w1)))"
    by (simp add: script_trace main_try_def Let_def sample_def venv_of_def
        create_virtual_environment_def activate_virtual_environment_def install_dependencies_def
        run_initial_management_commands_def start_django_server_def input_def
        andThen_def emit_def run_command_def subprocess_run_def announce_def commands_append)
  have m2: "Raises KeyboardInterrupt \<in> set (trace (snd (script sample_args ?w2)))"
    by (simp add: script_trace main_try_def Let_def sample_def venv_of_def
        create_virtual_environment_def activate_virtual_environment_def install_dependencies_def
        run_initial_management_commands_def start_django_server_def input_def lower_y
        get_local_ip_def get_local_ip_try_def sock_do_def
        andThen_def emit_def run_command_def subprocess_run_def announce_def commands_append)
  from interrupt_caught_at_top[OF t1, of sample_args] m1
       interrupt_caught_at_top[OF t2, of sample_args] m2
  show ?thesis by blast
qed

text \<open>
  Claim C6. Where \<open>connect\<close> fails, \<open>get_local_ip\<close> goes to its handler and returns \<open>None\<close>
  without having closed the socket it opened; the socket is closed, right after the address
  was read, only where every call succeeds.
\<close>

theorem get_local_ip_close_only_on_success:
  "get_local_ip unreachable =
     (Return None,
      unreachable\<lparr>trace := [Sock Socket, Sock Settimeout, Sock Connect,
                 Raises (OSError ''Network is unreachable''),
                 PrintError (OSError ''Network is unreachable'')]\<rparr>)
   \<and> Sock Close \<notin> set (trace (snd (get_local_ip unreachable)))
   \<and> get_local_ip sample =
     (Return (Some ''192.168.1.5''),
      sample\<lparr>trace := [Sock Socket, Sock Settimeout, Sock Connect, Sock Getsockname, Sock Close]\<rparr>)"
  by (simp add: get_local_ip_def get_local_ip_try_def andThen_def sock_do_def emit_def Let_def
      unreachable_def sample_def)

text \<open>
  Claim C7. Both prompts of \<open>start_django_server\<close> compare the lower-cased answer with
  \<open>y\<close>, which holds for the answers \<open>y\<close> and \<open>Y\<close> and for no other. At the first prompt
  any other answer ends the function with nothing done but the prompt, and \<open>y\<close> or \<open>Y\<close>
  leads to the second prompt. At the second prompt any other answer leads straight to the
  \<open>runserver\<close> command on the default address, and \<open>y\<close> or \<open>Y\<close> leads to the warning and the
  address lookup, after which the only command that can follow is \<open>runserver 0.0.0.0:80\<close>.
\<close>

theorem launcher_answers:
  "(lower s = ''y'' \<longleftrightarrow> s = ''y'' \<or> s = ''Y'')
   \<and> (stdin w = Line s # rest \<and> s \<noteq> ''y'' \<and> s \<noteq> ''Y'' \<longrightarrow>
        start_django_server v p w =
          (Return (), w\<lparr>stdin := rest, trace := trace w @ [Prompt ask_start]\<rparr>))
   \<and> (stdin w = Line s # rest \<and> (s = ''y'' \<or> s = ''Y'') \<longrightarrow>
        (\<exists>evs. trace (snd (start_django_server v p w)) =
                 trace w @ [Prompt ask_start, Prompt ask_expose] @ evs))
   \<and> (stdin w = Line s # Line t # rest \<and> (s = ''y'' \<or> s = ''Y'') \<and> t \<noteq> ''y'' \<and> t \<noteq> ''Y'' \<longrightarrow>
        (\<exists>ev. trace (snd (start_django_server v p w)) =
                 trace w @ [Prompt ask_start, Prompt ask_expose, Print ''Running Django server...'',
                            Run (manage_command w v p ''runserver''), ev]
              \<and> (ev = Print ''Done!'' \<or> is_cpe ev \<or> (\<exists>e. ev = Raises e))))
   \<and> (stdin w = Line s # Line t # rest \<and> (s = ''y'' \<or> s = ''Y'') \<and> (t = ''y'' \<or> t = ''Y'') \<longrightarrow>
        (\<exists>evs. trace (snd (start_django_server v p w)) =
                 trace w @ [Prompt ask_start, Prompt ask_expose,
                   Print ''WARNING: Exposing the server to the network may pose security risks.'',
                   Print ''Please ensure proper security measures are in place.'', Sock Socket] @ evs
              \<and> (commands evs = [] \<or> commands evs = [manage_command w v p ''runserver 0.0.0.0:80''])))"
  using start_declined[of w s rest v p] start_asks_expose[of w s rest v p]
    start_local_trace[of w s t rest v p] start_exposed_trace[of w s t rest v p]
  by (simp add: lower_y)

theorem launcher_answers_witness:
  "start_django_server ''venv'' ''shop'' (sample\<lparr>stdin := [Line ''yes'']\<rparr>) =
     (Return (), sample\<lparr>stdin := [], trace := [Prompt ask_start]\<rparr>)
   \<and> (\<exists>evs. trace (snd (start_django_server ''venv'' ''shop'' (sample\<lparr>stdin := [Line ''Y'']\<rparr>))) =
              [Prompt ask_start, Prompt ask_expose] @ evs)
   \<and> (\<exists>ev. trace (snd (start_django_server ''venv'' ''shop'' (sample\<lparr>stdin := [Line ''Y'', Line '' y'']\<rparr>))) =
              [Prompt ask_start, Prompt ask_expose, Print ''Running Django server...'',
               Run (manage_command sample ''venv'' ''shop'' ''runserver''), ev])
   \<and> (\<exists>evs. trace (snd (start_django_server ''venv'' ''shop'' (sample\<lparr>stdin := [Line ''y'', Line ''Y'']\<rparr>))) =
              [Prompt ask_start, Prompt ask_expose,
               Print ''WARNING: Exposing the server to the network may pose security risks.'',
               Print ''Please ensure proper security measures are in place.'', Sock Socket] @ evs)"
proof -
  have a: "start_django_server ''venv'' ''shop'' (sample\<lparr>stdin := [Line ''yes'']\<rparr>) =
     (Return (), sample\<lparr>stdin := [], trace := [Prompt ask_start]\<rparr>)"
    using launcher_answers[where s = "''yes''" and w = "sample\<lparr>stdin := [Line ''yes'']\<rparr>"
        and v = "''venv''" and p = "''shop''" and rest = "[]"]
    by (simp add: sample_def)
  have b: "\<exists>evs. trace (snd (start_django_server ''venv'' ''shop'' (sample\<lparr>stdin := [Line ''Y'']\<rparr>))) =
              [Prompt ask_start, Prompt ask_expose] @ evs"
    using launcher_answers[where s = "''Y''" and w = "sample\<lparr>stdin := [Line ''Y'']\<rparr>"
        and v = "''venv''" and p = "''shop''" and rest = "[]"]
    by (simp add: sample_def)
  have c: "\<exists>ev. trace (snd (start_django_server ''venv'' ''shop'' (sample\<lparr>stdin := [Line ''Y'', Line '' y'']\<rparr>))) =
              [Prompt ask_start, Prompt ask_expose, Print ''Running Django server...'',
               Run (manage_command sample ''venv'' ''shop'' ''runserver''), ev]"
    using launcher_answers[where s = "''Y''" and w = "sample\<lparr>stdin := [Line ''Y'', Line '' y'']\<rparr>"
        and v = "''venv''" and p = "''shop''" and t = "'' y''" and rest = "[]"]
    by (auto simp: sample_def manage_command_def)
  have d: "\<exists>evs. trace (snd (start_django_server ''venv'' ''shop'' (sample\<lparr>stdin := [Line ''y'', Line ''Y'']\<rparr>))) =
              [Prompt ask_start, Prompt ask_expose,
               Print ''WARNING: Exposing the server to the network may pose security risks.'',
               Print ''Please ensure proper security measures are in place.'', Sock Socket] @ evs"
    using launcher_answers[where s = "''y''" and w = "sample\<lparr>stdin := [Line ''y'', Line ''Y'']\<rparr>"
        and v = "''venv''" and p = "''shop''" and t = "''Y''" and rest = "[]"]
    by (auto simp: sample_def)
  from a b c d show ?thesis by blast
qed


text \<open>
  Claim C5, as stated, fails for the one exception that \<open>except Exception\<close> does not
  catch: with Ctrl-C pressed during the lookup, \<open>get_local_ip\<close> raises \<open>KeyboardInterrupt\<close>
  to its caller, and on the all-interfaces path no server command is run.
\<close>

theorem get_local_ip_passes_interrupt:
  "get_local_ip interrupted_lookup =
     (Raise KeyboardInterrupt,
      interrupted_lookup\<lparr>trace := [Sock Socket, Sock Settimeout, Sock Connect,
                                   Raises KeyboardInterrupt]\<rparr>)
   \<and> fst (start_django_server ''venv'' ''shop'' (interrupted_lookup\<lparr>stdin := [Line ''y'', Line ''y'']\<rparr>))
       = Raise KeyboardInterrupt
   \<and> commands (trace (snd (start_django_server ''venv'' ''shop''
                              (interrupted_lookup\<lparr>stdin := [Line ''y'', Line ''y'']\<rparr>)))) = []"
  by (simp add: start_django_server_def input_def lower_y get_local_ip_def get_local_ip_try_def
      andThen_def sock_do_def emit_def Let_def interrupted_lookup_def sample_def commands_append)

text \<open>
  Claim C5, amended. When no socket call is interrupted from the keyboard, \<open>get_local_ip\<close>
  returns to its caller whatever the socket calls do: every exception derived from
  \<open>Exception\<close> is caught. When a socket call fails, it prints the error and returns \<open>None\<close>;
  on the all-interfaces path the launcher then prints its warning and runs
  \<open>runserver 0.0.0.0:80\<close> all the same.
\<close>

theorem ip_discovery_failure_not_fatal:
  assumes "\<forall>c. sock w c \<noteq> Interrupted"
  shows "(\<exists>ip. fst (get_local_ip w) = Return ip)
       \<and> ((\<exists>c. sock w c \<noteq> Ok ()) \<longrightarrow>
            fst (get_local_ip w) = Return None
          \<and> (\<exists>m. last (trace (snd (get_local_ip w))) = PrintError (OSError m)))
       \<and> ((\<exists>c. sock w c \<noteq> Ok ()) \<and> stdin w = Line s # Line t # rest
            \<and> (s = ''y'' \<or> s = ''Y'') \<and> (t = ''y'' \<or> t = ''Y'') \<longrightarrow>
            (\<exists>pre m ev. trace (snd (start_django_server v p w)) =
               pre @ [PrintError (OSError m), Print no_ip_warning, Print ''Running Django server...'',
                      Run (manage_command w v p ''runserver 0.0.0.0:80''), ev]))"
proof (intro conjI impI)
  show "\<exists>ip. fst (get_local_ip w) = Return ip"
    using assms by (rule get_local_ip_returns)
next
  assume "\<exists>c. sock w c \<noteq> Ok ()"
  then obtain c where "sock w c \<noteq> Ok ()" ..
  from get_local_ip_fails[OF assms this]
  show "fst (get_local_ip w) = Return None"
    and "\<exists>m. last (trace (snd (get_local_ip w))) = PrintError (OSError m)" by simp_all
next
  assume h: "(\<exists>c. sock w c \<noteq> Ok ()) \<and> stdin w = Line s # Line t # rest
            \<and> (s = ''y'' \<or> s = ''Y'') \<and> (t = ''y'' \<or> t = ''Y'')"
  let ?w3 = "w\<lparr>stdin := rest, trace := trace w @
                 [Prompt ask_start, Prompt ask_expose,
                  Print ''WARNING: Exposing the server to the network may pose security risks.'',
                  Print ''Please ensure proper security measures are in place.'']\<rparr>"
  from h obtain c where c: "sock ?w3 c \<noteq> Ok ()" by auto
  have ni: "\<forall>c. sock ?w3 c \<noteq> Interrupted" using assms by simp
  obtain r w4 where g: "get_local_ip ?w3 = (r, w4)" by (cases "get_local_ip ?w3")
  from get_local_ip_fails[OF ni c] g obtain m where
    r: "r = Return None" and l: "last (trace w4) = PrintError (OSError m)" and ne: "trace w4 \<noteq> []"
    by auto
  from h have st: "stdin w = Line s # Line t # rest" and sy: "s = ''y'' \<or> s = ''Y''"
    and ty: "t = ''y'' \<or> t = ''Y''" by simp_all
  from start_exposed_after[OF st sy ty g, of v p] r
  have eq: "start_django_server v p w =
      run_command (manage_command w v p ''runserver 0.0.0.0:80'') (Some ''Django server'')
        (emit (Print no_ip_warning) w4)" by simp
  from run_command_trace[of "manage_command w v p ''runserver 0.0.0.0:80''" "Some ''Django server''"
        "emit (Print no_ip_warning) w4"]
  obtain ev where "trace (snd (start_django_server v p w)) =
      trace w4 @ [Print no_ip_warning, Print ''Running Django server...'',
                  Run (manage_command w v p ''runserver 0.0.0.0:80''), ev]"
    unfolding eq by (auto simp: announce_def emit_def)
  moreover have "trace w4 = butlast (trace w4) @ [PrintError (OSError m)]"
    using l ne append_butlast_last_id[of "trace w4"] by simp
  ultimately have "trace (snd (start_django_server v p w)) =
      butlast (trace w4) @ [PrintError (OSError m), Print no_ip_warning, Print ''Running Django server...'',
                  Run (manage_command w v p ''runserver 0.0.0.0:80''), ev]"
    by (metis append_Cons append_Nil append_assoc)
  then show "\<exists>pre m ev. trace (snd (start_django_server v p w)) =
               pre @ [PrintError (OSError m), Print no_ip_warning, Print ''Running Django server...'',
                      Run (manage_command w v p ''runserver 0.0.0.0:80''), ev]"
    by blast
qed

theorem ip_discovery_failure_not_fatal_witness:
  "fst (get_local_ip unreachable) = Return None
   \<and> (\<exists>pre m ev. trace (snd (start_django_server ''venv'' ''shop'' (unreachable\<lparr>stdin := [Line ''y'', Line ''y'']\<rparr>))) =
        pre @ [PrintError (OSError m), Print no_ip_warning, Print ''Running Django server...'',
               Run (manage_command unreachable ''venv'' ''shop'' ''runserver 0.0.0.0:80''), ev])"
proof -
  let ?w = "unreachable\<lparr>stdin := [Line ''y'', Line ''y'']\<rparr>"
  have n1: "\<forall>c. sock unreachable c \<noteq> Interrupted" and n2: "\<forall>c. sock ?w c \<noteq> Interrupted"
    by (simp_all add: unreachable_def sample_def)
  have f1: "\<exists>c. sock unreachable c \<noteq> Ok ()" and f2: "\<exists>c. sock ?w c \<noteq> Ok ()"
    by (auto simp: unreachable_def sample_def intro: exI[of _ Connect])
  have st: "stdin ?w = Line ''y'' # Line ''y'' # []" by simp
  have a: "fst (get_local_ip unreachable) = Return None"
    using ip_discovery_failure_not_fatal[OF n1] f1 by blast
  have b: "\<exists>pre m ev. trace (snd (start_django_server ''venv'' ''shop'' ?w)) =
        pre @ [PrintError (OSError m), Print no_ip_warning, Print ''Running Django server...'',
               Run (manage_command ?w ''venv'' ''shop'' ''runserver 0.0.0.0:80''), ev]"
    using ip_discovery_failure_not_fatal[OF n2, of "''y''" "''y''" "[]" "''venv''" "''shop''"] f2 st
    by blast
  have "manage_command ?w ''venv'' ''shop'' ''runserver 0.0.0.0:80'' =
        manage_command unreachable ''venv'' ''shop'' ''runserver 0.0.0.0:80''"
    by (simp add: manage_command_def)
  with a b show ?thesis by simp
qed

text \<open>
  Claim C4. When the environment exists, the answer to the reinstall prompt is \<open>n\<close> or \<open>N\<close>
  and the answer to the run-anyway prompt is neither \<open>y\<close> nor \<open>Y\<close>, the process ends with
  status 0 having asked the two questions and printed its closing message, and it has run
  no command at all.
\<close>

theorem decline_both_exits_0:
  "path_exists w (venv_of w) \<and> stdin w = Line s # Line t # rest \<and> (s = ''n'' \<or> s = ''N'')
     \<and> t \<noteq> ''y'' \<and> t \<noteq> ''Y'' \<longrightarrow>
   script a w =
     (0, w\<lparr>stdin := rest,
           trace := trace w @ [Prompt ask_reinstall, Prompt ask_run_anyway, Print completed_without]\<rparr>)
   \<and> commands (trace (snd (script a w))) = commands (trace w)"
  by (auto simp: main_try_skip_decline script_of_main_try commands_append)

theorem decline_both_exits_0_witness:
  "script sample_args (exists_sample\<lparr>stdin := [Line ''N'', Line ''no'']\<rparr>) =
     (0, exists_sample\<lparr>stdin := [],
           trace := [Prompt ask_reinstall, Prompt ask_run_anyway, Print completed_without]\<rparr>)
   \<and> commands (trace (snd (script sample_args (exists_sample\<lparr>stdin := [Line ''N'', Line ''no'']\<rparr>)))) = []"
  using decline_both_exits_0[where w = "exists_sample\<lparr>stdin := [Line ''N'', Line ''no'']\<rparr>"
      and s = "''N''" and t = "''no''" and rest = "[]" and a = sample_args]
  by (simp add: exists_sample_def sample_def)


text \<open>
  Claim C8. An answer to the start prompt other than \<open>y\<close> and \<open>Y\<close> makes
  \<open>start_django_server\<close> return with nothing done but the prompt: no second prompt, no
  server command. When the commands before it succeed, the run then ends with status 0 and
  its success message last, on each of the three ways to the launcher: a fresh environment,
  a reinstalled one, and the management commands run without reinstalling.
\<close>

theorem declined_start_still_succeeds:
  assumes "\<forall>n c. child w n c = Ok 0" and "s \<noteq> ''y''" and "s \<noteq> ''Y''"
  shows "(stdin w = Line s # rest \<longrightarrow>
            start_django_server v p w =
              (Return (), w\<lparr>stdin := rest, trace := trace w @ [Prompt ask_start]\<rparr>))
       \<and> (\<not> path_exists w (venv_of w) \<and> stdin w = Line s # rest \<longrightarrow>
            script a w =
              (0, w\<lparr>stdin := rest,
                    trace := trace w @ provision_events w (venv_of w) (requirements a)
                               @ bootstrap_events w (venv_of w) (project_dir a)
                               @ [Prompt ask_start, Print completed_ok]\<rparr>)
          \<and> commands (trace (snd (script a w))) =
              commands (trace w) @
              [create_command (venv_of w), activate_command w (venv_of w),
               install_command (venv_of w) (requirements a),
               manage_command w (venv_of w) (project_dir a) ''makemigrations'',
               manage_command w (venv_of w) (project_dir a) ''migrate'',
               manage_command w (venv_of w) (project_dir a) ''collectstatic --noinput''])
       \<and> (path_exists w (venv_of w) \<and> stdin w = Line r # Line s # rest \<and> r \<noteq> ''n'' \<and> r \<noteq> ''N'' \<longrightarrow>
            script a w =
              (0, w\<lparr>stdin := rest,
                    trace := trace w @ [Prompt ask_reinstall]
                               @ provision_events w (venv_of w) (requirements a)
                               @ bootstrap_events w (venv_of w) (project_dir a)
                               @ [Prompt ask_start, Print completed_ok]\<rparr>))
       \<and> (path_exists w (venv_of w) \<and> stdin w = Line r # Line t # Line s # rest
            \<and> (r = ''n'' \<or> r = ''N'') \<and> (t = ''y'' \<or> t = ''Y'') \<longrightarrow>
            script a w =
              (0, w\<lparr>stdin := rest,
                    trace := trace w @ [Prompt ask_reinstall, Prompt ask_run_anyway]
                               @ bootstrap_events w (venv_of w) (project_dir a)
                               @ [Prompt ask_start, Print completed_without]\<rparr>))"
proof (intro conjI impI)
  assume "stdin w = Line s # rest"
  then show "start_django_server v p w =
              (Return (), w\<lparr>stdin := rest, trace := trace w @ [Prompt ask_start]\<rparr>)"
    using assms(2,3) by (rule start_declined)
next
  assume h: "\<not> path_exists w (venv_of w) \<and> stdin w = Line s # rest"
  let ?w6 = "w\<lparr>trace := trace w @ provision_events w (venv_of w) (requirements a)
                                      @ bootstrap_events w (venv_of w) (project_dir a)\<rparr>"
  have st: "stdin ?w6 = Line s # rest" using h by simp
  have "main_try a w = (Return (), w\<lparr>stdin := rest,
                    trace := trace w @ provision_events w (venv_of w) (requirements a)
                               @ bootstrap_events w (venv_of w) (project_dir a)
                               @ [Prompt ask_start, Print completed_ok]\<rparr>)"
    unfolding main_try_fresh[OF h[THEN conjunct1]] setup_steps_ok[OF assms(1)]
      start_declined[OF st assms(2,3)] andThen_Return
    by (simp add: emit_def)
  then show s1: "script a w =
              (0, w\<lparr>stdin := rest,
                    trace := trace w @ provision_events w (venv_of w) (requirements a)
                               @ bootstrap_events w (venv_of w) (project_dir a)
                               @ [Prompt ask_start, Print completed_ok]\<rparr>)"
    by (rule script_of_main_try)
  show "commands (trace (snd (script a w))) =
              commands (trace w) @
              [create_command (venv_of w), activate_command w (venv_of w),
               install_command (venv_of w) (requirements a),
               manage_command w (venv_of w) (project_dir a) ''makemigrations'',
               manage_command w (venv_of w) (project_dir a) ''migrate'',
               manage_command w (venv_of w) (project_dir a) ''collectstatic --noinput'']"
    by (simp add: s1 commands_append commands_provision commands_bootstrap)
next
  assume h: "path_exists w (venv_of w) \<and> stdin w = Line r # Line s # rest \<and> r \<noteq> ''n'' \<and> r \<noteq> ''N''"
  let ?w1 = "w\<lparr>stdin := Line s # rest, trace := trace w @ [Prompt ask_reinstall]\<rparr>"
  let ?w6 = "?w1\<lparr>trace := trace ?w1 @ provision_events ?w1 (venv_of w) (requirements a)
                                      @ bootstrap_events ?w1 (venv_of w) (project_dir a)\<rparr>"
  have ok1: "\<forall>n c. child ?w1 n c = Ok 0" using assms(1) by simp
  have st: "stdin ?w6 = Line s # rest" by simp
  have ev: "provision_events ?w1 = provision_events w" "bootstrap_events ?w1 = bootstrap_events w"
    by (auto simp: provision_events_def bootstrap_events_def activate_command_def manage_command_def
          fun_eq_iff)
  have "main_try a w = (Return (), w\<lparr>stdin := rest,
                    trace := trace w @ [Prompt ask_reinstall]
                               @ provision_events w (venv_of w) (requirements a)
                               @ bootstrap_events w (venv_of w) (project_dir a)
                               @ [Prompt ask_start, Print completed_ok]\<rparr>)"
    unfolding main_try_reinstall[where rest = "Line s # rest", OF h[THEN conjunct1]
        h[THEN conjunct2, THEN conjunct1] h[THEN conjunct2, THEN conjunct2, THEN conjunct1]
        h[THEN conjunct2, THEN conjunct2, THEN conjunct2]]
      setup_steps_ok[OF ok1] start_declined[OF st assms(2,3)] andThen_Return
    by (simp add: emit_def ev)
  then show "script a w =
              (0, w\<lparr>stdin := rest,
                    trace := trace w @ [Prompt ask_reinstall]
                               @ provision_events w (venv_of w) (requirements a)
                               @ bootstrap_events w (venv_of w) (project_dir a)
                               @ [Prompt ask_start, Print completed_ok]\<rparr>)"
    by (rule script_of_main_try)
next
  assume h: "path_exists w (venv_of w) \<and> stdin w = Line r # Line t # Line s # rest
            \<and> (r = ''n'' \<or> r = ''N'') \<and> (t = ''y'' \<or> t = ''Y'')"
  let ?w2 = "w\<lparr>stdin := Line s # rest, trace := trace w @ [Prompt ask_reinstall, Prompt ask_run_anyway]\<rparr>"
  let ?w5 = "?w2\<lparr>trace := trace ?w2 @ bootstrap_events ?w2 (venv_of w) (project_dir a)\<rparr>"
  have ok2: "\<forall>n c. child ?w2 n c = Ok 0" using assms(1) by simp
  have st: "stdin ?w5 = Line s # rest" by simp
  have ev: "bootstrap_events ?w2 = bootstrap_events w"
    by (auto simp: bootstrap_events_def manage_command_def fun_eq_iff)
  from h have p: "path_exists w (venv_of w)" and i: "stdin w = Line r # Line t # Line s # rest"
    and rn: "r = ''n'' \<or> r = ''N''" and ty: "t = ''y'' \<or> t = ''Y''" by simp_all
  have "main_try a w = (Raise (SystemExit 0), w\<lparr>stdin := rest,
                    trace := trace w @ [Prompt ask_reinstall, Prompt ask_run_anyway]
                               @ bootstrap_events w (venv_of w) (project_dir a)
                               @ [Prompt ask_start, Print completed_without]\<rparr>)"
    unfolding main_try_skip_run[OF p i rn ty] run_initial_ok[OF ok2] andThen_Return
      start_declined[OF st assms(2,3)]
    by (simp add: emit_def ev)
  then show "script a w =
              (0, w\<lparr>stdin := rest,
                    trace := trace w @ [Prompt ask_reinstall, Prompt ask_run_anyway]
                               @ bootstrap_events w (venv_of w) (project_dir a)
                               @ [Prompt ask_start, Print completed_without]\<rparr>)"
    by (rule script_of_main_try)
qed

theorem declined_start_still_succeeds_witness:
  "fst (script sample_args (sample\<lparr>stdin := [Line ''n'']\<rparr>)) = 0
   \<and> last (trace (snd (script sample_args (sample\<lparr>stdin := [Line ''n'']\<rparr>)))) = Print completed_ok
   \<and> commands (trace (snd (script sample_args (sample\<lparr>stdin := [Line ''n'']\<rparr>)))) =
       [create_command ''C:/tools/venv'', ''C:/tools/venv/Scripts/activate'',
        install_command ''C:/tools/venv'' ''req.txt'',
        manage_command sample ''C:/tools/venv'' ''shop'' ''makemigrations'',
        manage_command sample ''C:/tools/venv'' ''shop'' ''migrate'',
        manage_command sample ''C:/tools/venv'' ''shop'' ''collectstatic --noinput'']"
proof -
  let ?w = "sample\<lparr>stdin := [Line ''n'']\<rparr>"
  have ok: "\<forall>n c. child ?w n c = Ok 0" by (simp add: sample_def)
  have v: "venv_of sample = ''C:/tools/venv''" by (simp add: venv_of_def sample_def)
  have ts: "trace sample = []" by (simp add: sample_def)
  have f: "\<not> path_exists ?w (venv_of ?w) \<and> stdin ?w = Line ''n'' # []" by (simp add: sample_def)
  have m: "manage_command ?w = manage_command sample"
    by (simp add: manage_command_def fun_eq_iff)
  have ac: "activate_command ?w ''C:/tools/venv'' = ''C:/tools/venv/Scripts/activate''"
    by (simp add: activate_command_def sample_def)
  from declined_start_still_succeeds[OF ok, where s = "''n''" and rest = "[]" and a = sample_args] f
  show ?thesis
    by (simp add: v m ac ts sample_args_def commands_append commands_provision commands_bootstrap)
qed

text \<open>
  Claim C10. The reinstall prompt compares the lower-cased answer with \<open>n\<close>: only \<open>n\<close>
  and \<open>N\<close> decline, and then the second question is asked. Every other answer, the empty
  one too, goes on to create the environment anew, with no second question. The second
  prompt compares with \<open>y\<close>: after \<open>y\<close> or \<open>Y\<close> the management commands start, after any
  other answer the script ends with status 0 having run nothing.
\<close>

theorem reinstall_prompt_convention:
  "(lower s = ''n'' \<longleftrightarrow> s = ''n'' \<or> s = ''N'')
   \<and> (lower t = ''y'' \<longleftrightarrow> t = ''y'' \<or> t = ''Y'')
   \<and> (path_exists w (venv_of w) \<and> stdin w = Line s # rest \<and> s \<noteq> ''n'' \<and> s \<noteq> ''N'' \<longrightarrow>
        (\<exists>evs. trace (snd (script a w)) =
                 trace w @ [Prompt ask_reinstall, Print ''Creating a virtual environment...'',
                            Run (create_command (venv_of w))] @ evs))
   \<and> (path_exists w (venv_of w) \<and> stdin w = Line s # rest \<and> (s = ''n'' \<or> s = ''N'') \<longrightarrow>
        (\<exists>evs. trace (snd (script a w)) =
                 trace w @ [Prompt ask_reinstall, Prompt ask_run_anyway] @ evs))
   \<and> (path_exists w (venv_of w) \<and> stdin w = Line s # Line t # rest \<and> (s = ''n'' \<or> s = ''N'')
        \<and> (t = ''y'' \<or> t = ''Y'') \<longrightarrow>
        (\<exists>evs. trace (snd (script a w)) =
                 trace w @ [Prompt ask_reinstall, Prompt ask_run_anyway,
                            Print ''Running initial management commands...'',
                            Print ''Running makemigrations...'',
                            Run (manage_command w (venv_of w) (project_dir a) ''makemigrations'')] @ evs))
   \<and> (path_exists w (venv_of w) \<and> stdin w = Line s # Line t # rest \<and> (s = ''n'' \<or> s = ''N'')
        \<and> t \<noteq> ''y'' \<and> t \<noteq> ''Y'' \<longrightarrow>
        script a w =
          (0, w\<lparr>stdin := rest,
                trace := trace w @ [Prompt ask_reinstall, Prompt ask_run_anyway,
                                    Print completed_without]\<rparr>))"
proof (intro conjI impI)
  show "lower s = ''n'' \<longleftrightarrow> s = ''n'' \<or> s = ''N''" by (rule lower_n)
  show "lower t = ''y'' \<longleftrightarrow> t = ''y'' \<or> t = ''Y''" by (rule lower_y)
next
  assume h: "path_exists w (venv_of w) \<and> stdin w = Line s # rest \<and> s \<noteq> ''n'' \<and> s \<noteq> ''N''"
  let ?w1 = "w\<lparr>stdin := rest, trace := trace w @ [Prompt ask_reinstall]\<rparr>"
  from h have m: "main_try a w = setup_steps a (venv_of w) ?w1"
    by (simp add: main_try_reinstall)
  from setup_steps_starts[of a "venv_of w" ?w1] obtain evs where
    "trace (snd (main_try a w)) =
       trace w @ [Prompt ask_reinstall, Print ''Creating a virtual environment...'',
                  Run (create_command (venv_of w))] @ evs"
    unfolding m by auto
  moreover from script_grows[of a w] obtain more where
    "trace (snd (script a w)) = trace (snd (main_try a w)) @ more" by (auto simp: grows_def)
  ultimately show "\<exists>evs. trace (snd (script a w)) =
                 trace w @ [Prompt ask_reinstall, Print ''Creating a virtual environment...'',
                            Run (create_command (venv_of w))] @ evs"
    by simp
next
  assume h: "path_exists w (venv_of w) \<and> stdin w = Line s # rest \<and> (s = ''n'' \<or> s = ''N'')"
  let ?w1 = "w\<lparr>stdin := rest, trace := trace w @ [Prompt ask_reinstall]\<rparr>"
  from h have p: "path_exists w (venv_of w)" and i: "stdin w = Line s # rest"
    and sn: "s = ''n'' \<or> s = ''N''" by simp_all
  have "\<exists>evs. trace (snd (input ask_run_anyway ?w1)) =
          (trace w @ [Prompt ask_reinstall, Prompt ask_run_anyway]) @ evs"
    using input_trace[of ask_run_anyway ?w1] by auto
  then have "\<exists>evs. trace (snd (main_try a w)) =
          (trace w @ [Prompt ask_reinstall, Prompt ask_run_anyway]) @ evs"
    unfolding main_try_skip[OF p i sn]
    by (rule andThen_starts)
       (intro andThen_frame[where P = grows] grows_if grows_run_initial grows_start grows_refl,
        auto intro: grows_emit grows_refl)
  then obtain evs where "trace (snd (main_try a w)) =
          (trace w @ [Prompt ask_reinstall, Prompt ask_run_anyway]) @ evs" ..
  moreover from script_grows[of a w] obtain more where
    "trace (snd (script a w)) = trace (snd (main_try a w)) @ more" by (auto simp: grows_def)
  ultimately show "\<exists>evs. trace (snd (script a w)) =
                 trace w @ [Prompt ask_reinstall, Prompt ask_run_anyway] @ evs"
    by simp
next
  assume h: "path_exists w (venv_of w) \<and> stdin w = Line s # Line t # rest \<and> (s = ''n'' \<or> s = ''N'')
        \<and> (t = ''y'' \<or> t = ''Y'')"
  let ?w2 = "w\<lparr>stdin := rest, trace := trace w @ [Prompt ask_reinstall, Prompt ask_run_anyway]\<rparr>"
  from h have p: "path_exists w (venv_of w)" and i: "stdin w = Line s # Line t # rest"
    and sn: "s = ''n'' \<or> s = ''N''" and ty: "t = ''y'' \<or> t = ''Y''" by simp_all
  have mc: "manage_command ?w2 = manage_command w" by (simp add: manage_command_def fun_eq_iff)
  have "\<exists>evs. trace (snd (run_initial_management_commands (venv_of w) (project_dir a) ?w2)) =
          (trace w @ [Prompt ask_reinstall, Prompt ask_run_anyway,
                      Print ''Running initial management commands...'',
                      Print ''Running makemigrations...'',
                      Run (manage_command w (venv_of w) (project_dir a) ''makemigrations'')]) @ evs"
    using run_initial_starts[of "venv_of w" "project_dir a" ?w2] by (simp add: mc)
  then have "\<exists>evs. trace (snd (main_try a w)) =
          (trace w @ [Prompt ask_reinstall, Prompt ask_run_anyway,
                      Print ''Running initial management commands...'',
                      Print ''Running makemigrations...'',
                      Run (manage_command w (venv_of w) (project_dir a) ''makemigrations'')]) @ evs"
    unfolding main_try_skip_run[OF p i sn ty]
    by (intro andThen_starts grows_start grows_refl) (auto intro: grows_emit grows_refl)
  then obtain evs where "trace (snd (main_try a w)) =
          (trace w @ [Prompt ask_reinstall, Prompt ask_run_anyway,
                      Print ''Running initial management commands...'',
                      Print ''Running makemigrations...'',
                      Run (manage_command w (venv_of w) (project_dir a) ''makemigrations'')]) @ evs" ..
  moreover from script_grows[of a w] obtain more where
    "trace (snd (script a w)) = trace (snd (main_try a w)) @ more" by (auto simp: grows_def)
  ultimately show "\<exists>evs. trace (snd (script a w)) =
                 trace w @ [Prompt ask_reinstall, Prompt ask_run_anyway,
                            Print ''Running initial management commands...'',
                            Print ''Running makemigrations...'',
                            Run (manage_command w (venv_of w) (project_dir a) ''makemigrations'')] @ evs"
    by simp
next
  assume "path_exists w (venv_of w) \<and> stdin w = Line s # Line t # rest \<and> (s = ''n'' \<or> s = ''N'')
        \<and> t \<noteq> ''y'' \<and> t \<noteq> ''Y''"
  then show "script a w =
          (0, w\<lparr>stdin := rest,
                trace := trace w @ [Prompt ask_reinstall, Prompt ask_run_anyway,
                                    Print completed_without]\<rparr>)"
    by (auto simp: main_try_skip_decline script_of_main_try)
qed

theorem reinstall_prompt_convention_witness:
  "(\<exists>evs. trace (snd (script sample_args (exists_sample\<lparr>stdin := [Line []]\<rparr>))) =
            [Prompt ask_reinstall, Print ''Creating a virtual environment...'',
             Run (create_command ''C:/tools/venv'')] @ evs)
   \<and> (\<exists>evs. trace (snd (script sample_args (exists_sample\<lparr>stdin := [Line ''N'', Line ''Y'']\<rparr>))) =
            [Prompt ask_reinstall, Prompt ask_run_anyway,
             Print ''Running initial management commands...'', Print ''Running makemigrations...'',
             Run (manage_command exists_sample ''C:/tools/venv'' ''shop'' ''makemigrations'')] @ evs)"
proof -
  let ?w1 = "exists_sample\<lparr>stdin := [Line []]\<rparr>"
  let ?w2 = "exists_sample\<lparr>stdin := [Line ''N'', Line ''Y'']\<rparr>"
  have v: "venv_of exists_sample = ''C:/tools/venv''"
    by (simp add: venv_of_def exists_sample_def sample_def)
  have t: "trace exists_sample = []" by (simp add: exists_sample_def sample_def)
  have p: "path_exists exists_sample ''C:/tools/venv''" by (simp add: exists_sample_def)
  have m: "manage_command ?w2 = manage_command exists_sample"
    by (simp add: manage_command_def fun_eq_iff)
  have a: "\<exists>evs. trace (snd (script sample_args ?w1)) =
            [Prompt ask_reinstall, Print ''Creating a virtual environment...'',
             Run (create_command ''C:/tools/venv'')] @ evs"
    using reinstall_prompt_convention[where w = ?w1 and s = "[]" and rest = "[]" and a = sample_args]
    by (simp add: v t p)
  have b: "\<exists>evs. trace (snd (script sample_args ?w2)) =
            [Prompt ask_reinstall, Prompt ask_run_anyway,
             Print ''Running initial management commands...'', Print ''Running makemigrations...'',
             Run (manage_command exists_sample ''C:/tools/venv'' ''shop'' ''makemigrations'')] @ evs"
    using reinstall_prompt_convention[where w = ?w2 and s = "''N''" and t = "''Y''" and rest = "[]"
        and a = sample_args]
    by (simp add: v t p m sample_args_def)
  from a b show ?thesis by blast
qed

text \<open>
  Claim C3. \<open>run_initial_management_commands\<close> runs \<open>makemigrations\<close>, \<open>migrate\<close> and
  \<open>collectstatic\<close> in this order, each through its own \<open>run_command\<close>. When all three
  succeed it returns, having run exactly the three. When one does not succeed, the function
  raises and the commands after it are not run; when that command ended with a status other
  than zero, what is raised is \<open>SystemExit 1\<close> and the error report is the last thing
  printed. In a run of the script, a printed command error means that the process ends
  with status 1, the report being the last thing it did.
\<close>

theorem bootstrap_stops_at_first_failure:
  assumes "n = length (commands (trace w))"
    and "c1 = manage_command w v p ''makemigrations''"
    and "c2 = manage_command w v p ''migrate''"
    and "c3 = manage_command w v p ''collectstatic --noinput''"
    and "r = run_initial_management_commands v p w"
  shows "(child w n c1 = Ok 0 \<and> child w (n + 1) c2 = Ok 0 \<and> child w (n + 2) c3 = Ok 0 \<longrightarrow>
            fst r = Return () \<and> commands (trace (snd r)) = commands (trace w) @ [c1, c2, c3])
       \<and> (child w n c1 \<noteq> Ok 0 \<longrightarrow>
            (\<exists>e. fst r = Raise e) \<and> commands (trace (snd r)) = commands (trace w) @ [c1]
          \<and> (\<forall>rc. child w n c1 = Ok rc \<longrightarrow> fst r = Raise (SystemExit 1)
                \<and> last (trace (snd r)) = PrintError (CalledProcessError rc c1)))
       \<and> (child w n c1 = Ok 0 \<and> child w (n + 1) c2 \<noteq> Ok 0 \<longrightarrow>
            (\<exists>e. fst r = Raise e) \<and> commands (trace (snd r)) = commands (trace w) @ [c1, c2]
          \<and> (\<forall>rc. child w (n + 1) c2 = Ok rc \<longrightarrow> fst r = Raise (SystemExit 1)
                \<and> last (trace (snd r)) = PrintError (CalledProcessError rc c2)))
       \<and> (child w n c1 = Ok 0 \<and> child w (n + 1) c2 = Ok 0 \<and> child w (n + 2) c3 \<noteq> Ok 0 \<longrightarrow>
            (\<exists>e. fst r = Raise e) \<and> commands (trace (snd r)) = commands (trace w) @ [c1, c2, c3]
          \<and> (\<forall>rc. child w (n + 2) c3 = Ok rc \<longrightarrow> fst r = Raise (SystemExit 1)
                \<and> last (trace (snd r)) = PrintError (CalledProcessError rc c3)))
       \<and> (\<forall>a w0 rc c. trace w0 = [] \<and> PrintError (CalledProcessError rc c) \<in> set (trace (snd (script a w0)))
            \<longrightarrow> fst (script a w0) = 1 \<and> is_cpe (last (trace (snd (script a w0)))))"
proof -
  let ?w0 = "emit (Print ''Running initial management commands...'') w"
  let ?w1 = "emit (Print ''Done!'') (emit (Run c1) (announce (Some ''makemigrations'') ?w0))"
  let ?w2 = "emit (Print ''Done!'') (emit (Run c2) (announce (Some ''migrate'') ?w1))"
  let ?w3 = "emit (Print ''Done!'') (emit (Run c3) (announce (Some ''collectstatic'') ?w2))"
  have i0: "child ?w0 = child w" "length (commands (trace ?w0)) = n"
    by (simp_all add: emit_fields assms(1))
  have i1: "child ?w1 = child w" "length (commands (trace ?w1)) = n + 1"
    "commands (trace ?w1) = commands (trace w) @ [c1]" "manage_command ?w1 = manage_command w"
    by (simp_all add: emit_fields announce_fields assms(1) manage_command_def fun_eq_iff)
  have i2: "child ?w2 = child w" "length (commands (trace ?w2)) = n + 2"
    "commands (trace ?w2) = commands (trace w) @ [c1, c2]" "manage_command ?w2 = manage_command w"
    by (simp_all add: emit_fields announce_fields assms(1) manage_command_def fun_eq_iff)
  have r0: "r = andThen (run_command c1 (Some ''makemigrations'') ?w0) (\<lambda>u w'.
              andThen (run_command (manage_command w' v p ''migrate'') (Some ''migrate'') w') (\<lambda>u w'.
                run_command (manage_command w' v p ''collectstatic --noinput'') (Some ''collectstatic'') w'))"
    by (simp add: assms(5) run_initial_management_commands_def assms(2))
  have step1: "child w n c1 = Ok 0 \<Longrightarrow>
      r = andThen (run_command c2 (Some ''migrate'') ?w1) (\<lambda>u w'.
                run_command (manage_command w' v p ''collectstatic --noinput'') (Some ''collectstatic'') w')"
    unfolding r0 by (subst run_command_ok) (simp_all add: i0 andThen_Return i1(4) assms(3))
  have step2: "child w n c1 = Ok 0 \<Longrightarrow> child w (n + 1) c2 = Ok 0 \<Longrightarrow>
      r = run_command c3 (Some ''collectstatic'') ?w2"
    by (subst step1, assumption, subst run_command_ok) (simp_all add: i1(1,2) andThen_Return i2(4) assms(4))
  have p1: "child w n c1 \<noteq> Ok 0 \<Longrightarrow> child ?w0 (length (commands (trace ?w0))) c1 \<noteq> Ok 0"
    by (simp add: i0)
  have p2: "child w (n + 1) c2 \<noteq> Ok 0 \<Longrightarrow> child ?w1 (length (commands (trace ?w1))) c2 \<noteq> Ok 0"
    by (simp add: i1(1,2))
  have p3: "child w (n + 2) c3 \<noteq> Ok 0 \<Longrightarrow> child ?w2 (length (commands (trace ?w2))) c3 \<noteq> Ok 0"
    by (simp add: i2(1,2))
  have fail1: "child w n c1 \<noteq> Ok 0 \<Longrightarrow> r = run_command c1 (Some ''makemigrations'') ?w0"
  proof -
    assume "child w n c1 \<noteq> Ok 0"
    then obtain e where "fst (run_command c1 (Some ''makemigrations'') ?w0) = Raise e"
      using run_command_stops[OF p1, of "Some ''makemigrations''"] by blast
    then show ?thesis unfolding r0
      by (cases "run_command c1 (Some ''makemigrations'') ?w0") (simp add: andThen_Raise)
  qed
  have fail2: "child w n c1 = Ok 0 \<Longrightarrow> child w (n + 1) c2 \<noteq> Ok 0 \<Longrightarrow>
      r = run_command c2 (Some ''migrate'') ?w1"
  proof -
    assume a: "child w n c1 = Ok 0" and "child w (n + 1) c2 \<noteq> Ok 0"
    then obtain e where "fst (run_command c2 (Some ''migrate'') ?w1) = Raise e"
      using run_command_stops[OF p2, of "Some ''migrate''"] by blast
    then show ?thesis unfolding step1[OF a]
      by (cases "run_command c2 (Some ''migrate'') ?w1") (simp add: andThen_Raise)
  qed
  show ?thesis
  proof (intro conjI impI allI)
    fix a w0 rc c
    assume "trace w0 = [] \<and> PrintError (CalledProcessError rc c) \<in> set (trace (snd (script a w0)))"
    then show "fst (script a w0) = 1" and "is_cpe (last (trace (snd (script a w0))))"
      using failed_command_ends_script[of w0 "PrintError (CalledProcessError rc c)" a] by simp_all
  next
    assume h: "child w n c1 = Ok 0 \<and> child w (n + 1) c2 = Ok 0 \<and> child w (n + 2) c3 = Ok 0"
    then have "r = run_command c3 (Some ''collectstatic'') ?w2" by (simp add: step2)
    moreover have "run_command c3 (Some ''collectstatic'') ?w2 = (Return (), ?w3)"
      using h by (intro run_command_ok) (simp add: i2(1,2))
    ultimately have "r = (Return (), ?w3)" by simp
    then show "fst r = Return ()" and "commands (trace (snd r)) = commands (trace w) @ [c1, c2, c3]"
      by (simp_all add: emit_fields announce_fields)
  next
    assume h: "child w n c1 \<noteq> Ok 0"
    note s = run_command_stops[OF p1[OF h], of "Some ''makemigrations''", folded fail1[OF h]]
    from s show "\<exists>e. fst r = Raise e" by blast
    from s show "commands (trace (snd r)) = commands (trace w) @ [c1]" by (simp add: emit_fields)
    fix rc assume "child w n c1 = Ok rc"
    then have "child ?w0 (length (commands (trace ?w0))) c1 = Ok rc" by (simp add: i0)
    with s show "fst r = Raise (SystemExit 1)"
      and "last (trace (snd r)) = PrintError (CalledProcessError rc c1)" by blast+
  next
    assume h: "child w n c1 = Ok 0 \<and> child w (n + 1) c2 \<noteq> Ok 0"
    then have a: "child w n c1 = Ok 0" and b: "child w (n + 1) c2 \<noteq> Ok 0" by simp_all
    note s = run_command_stops[OF p2[OF b], of "Some ''migrate''", folded fail2[OF a b]]
    from s show "\<exists>e. fst r = Raise e" by blast
    from s show "commands (trace (snd r)) = commands (trace w) @ [c1, c2]" by (simp add: i1(3))
    fix rc assume "child w (n + 1) c2 = Ok rc"
    then have "child ?w1 (length (commands (trace ?w1))) c2 = Ok rc" by (simp add: i1(1,2))
    with s show "fst r = Raise (SystemExit 1)"
      and "last (trace (snd r)) = PrintError (CalledProcessError rc c2)" by blast+
  next
    assume h: "child w n c1 = Ok 0 \<and> child w (n + 1) c2 = Ok 0 \<and> child w (n + 2) c3 \<noteq> Ok 0"
    then have a: "child w n c1 = Ok 0" and b: "child w (n + 1) c2 = Ok 0"
      and c: "child w (n + 2) c3 \<noteq> Ok 0" by simp_all
    note s = run_command_stops[OF p3[OF c], of "Some ''collectstatic''", folded step2[OF a b]]
    from s show "\<exists>e. fst r = Raise e" by blast
    from s show "commands (trace (snd r)) = commands (trace w) @ [c1, c2, c3]" by (simp add: i2(3))
    fix rc assume "child w (n + 2) c3 = Ok rc"
    then have "child ?w2 (length (commands (trace ?w2))) c3 = Ok rc" by (simp add: i2(1,2))
    with s show "fst r = Raise (SystemExit 1)"
      and "last (trace (snd r)) = PrintError (CalledProcessError rc c3)" by blast+
  qed
qed

theorem bootstrap_stops_at_first_failure_witness:
  "fst (run_initial_management_commands ''venv'' ''shop'' (sample\<lparr>child := \<lambda>n c. if n = 1 then Ok 3 else Ok 0\<rparr>))
     = Raise (SystemExit 1)
   \<and> commands (trace (snd (run_initial_management_commands ''venv'' ''shop''
         (sample\<lparr>child := \<lambda>n c. if n = 1 then Ok 3 else Ok 0\<rparr>)))) =
       [manage_command sample ''venv'' ''shop'' ''makemigrations'',
        manage_command sample ''venv'' ''shop'' ''migrate'']
   \<and> fst (script sample_args (sample\<lparr>child := \<lambda>n c. if n = 4 then Ok 3 else Ok 0\<rparr>)) = 1"
proof -
  let ?w = "sample\<lparr>child := \<lambda>n c. if n = 1 then Ok 3 else Ok 0\<rparr>"
  let ?u = "sample\<lparr>child := \<lambda>n c. if n = 4 then Ok 3 else Ok 0\<rparr>"
  have sample_trace: "trace sample = []" by (simp add: sample_def)
  have n: "0 = length (commands (trace ?w))" by (simp add: sample_def)
  have m: "manage_command ?w = manage_command sample" by (simp add: manage_command_def fun_eq_iff)
  note b = bootstrap_stops_at_first_failure[OF n refl refl refl refl, of "''venv''" "''shop''"]
  have c: "child ?w 0 (manage_command ?w ''venv'' ''shop'' ''makemigrations'') = Ok 0
         \<and> child ?w (0 + 1) (manage_command ?w ''venv'' ''shop'' ''migrate'') \<noteq> Ok 0"
    and d: "child ?w (0 + 1) (manage_command ?w ''venv'' ''shop'' ''migrate'') = Ok 3"
    by simp_all
  from b c d have "fst (run_initial_management_commands ''venv'' ''shop'' ?w) = Raise (SystemExit 1)
    \<and> commands (trace (snd (run_initial_management_commands ''venv'' ''shop'' ?w))) =
        commands (trace ?w) @ [manage_command ?w ''venv'' ''shop'' ''makemigrations'',
                               manage_command ?w ''venv'' ''shop'' ''migrate'']"
    by blast
  then have f: "fst (run_initial_management_commands ''venv'' ''shop'' ?w) = Raise (SystemExit 1)
    \<and> commands (trace (snd (run_initial_management_commands ''venv'' ''shop'' ?w))) =
        [manage_command sample ''venv'' ''shop'' ''makemigrations'',
         manage_command sample ''venv'' ''shop'' ''migrate'']"
    using sample_trace by (simp add: manage_command_def)
  have t: "trace ?u = []" by (simp add: sample_def)
  have mem: "PrintError (CalledProcessError 3
               (manage_command ?u (venv_of ?u) (project_dir sample_args) ''migrate''))
          \<in> set (trace (snd (script sample_args ?u)))"
    by (simp add: script_trace main_try_def Let_def sample_def venv_of_def
        create_virtual_environment_def activate_virtual_environment_def install_dependencies_def
        run_initial_management_commands_def manage_command_def
        andThen_def emit_def run_command_def subprocess_run_def announce_def commands_append)
  from b t mem have "fst (script sample_args ?u) = 1" by blast
  with f show ?thesis by simp
qed

text \<open>
  Claim C1, as stated, fails already in the plainest run: no environment, every command
  successful, the server declined. Between creating the environment and installing into it
  the script runs a command of its own, the activation script of the environment, so six
  commands are run where the claim lists five.
\<close>

theorem full_run_runs_activate:
  "commands (trace (snd (script sample_args (sample\<lparr>stdin := [Line ''n'']\<rparr>)))) =
     [create_command ''C:/tools/venv'', ''C:/tools/venv/Scripts/activate'',
      install_command ''C:/tools/venv'' ''req.txt'',
      manage_command sample ''C:/tools/venv'' ''shop'' ''makemigrations'',
      manage_command sample ''C:/tools/venv'' ''shop'' ''migrate'',
      manage_command sample ''C:/tools/venv'' ''shop'' ''collectstatic --noinput'']
   \<and> commands (trace (snd (script sample_args (sample\<lparr>stdin := [Line ''n'']\<rparr>)))) \<noteq>
     [create_command ''C:/tools/venv'',
      install_command ''C:/tools/venv'' ''req.txt'',
      manage_command sample ''C:/tools/venv'' ''shop'' ''makemigrations'',
      manage_command sample ''C:/tools/venv'' ''shop'' ''migrate'',
      manage_command sample ''C:/tools/venv'' ''shop'' ''collectstatic --noinput'']"
proof -
  let ?w = "sample\<lparr>stdin := [Line ''n'']\<rparr>"
  let ?v = "''C:/tools/venv''"
  let ?w6 = "?w\<lparr>trace := trace ?w @ provision_events ?w (venv_of ?w) (requirements sample_args)
                 @ bootstrap_events ?w (venv_of ?w) (project_dir sample_args)\<rparr>"
  have ok: "\<forall>n c. child ?w n c = Ok 0" by (simp add: sample_def)
  have fresh: "\<not> path_exists ?w (venv_of ?w)" by (simp add: sample_def)
  have st: "stdin ?w6 = Line ''n'' # []" by simp
  have ny: "''n'' \<noteq> ''y''" "''n'' \<noteq> ''Y''" by simp_all
  have v: "venv_of sample = ?v" by (simp add: venv_of_def sample_def)
  have ts: "trace sample = []" by (simp add: sample_def)
  have ac: "activate_command ?w ?v = ''C:/tools/venv/Scripts/activate''"
    by (simp add: activate_command_def sample_def)
  have mc: "manage_command ?w = manage_command sample" by (simp add: manage_command_def fun_eq_iff)
  have "commands (trace (snd (script sample_args ?w))) = commands (trace ?w6)"
    by (simp only: script_commands main_try_fresh[OF fresh] setup_steps_ok[OF ok]
        commands_final_print start_commands_declined[OF st ny])
  also have "\<dots> = [create_command ?v, ''C:/tools/venv/Scripts/activate'',
      install_command ?v ''req.txt'',
      manage_command sample ?v ''shop'' ''makemigrations'',
      manage_command sample ?v ''shop'' ''migrate'',
      manage_command sample ?v ''shop'' ''collectstatic --noinput'']"
    by (simp add: commands_append commands_provision commands_bootstrap v ts ac mc sample_args_def)
  finally show ?thesis by simp
qed

text \<open>
  Claim C1, amended. For every requirements path and project directory, when the
  environment does not exist yet and every command succeeds, the commands of the run are
  exactly: create the environment, run its activation script, install the requirements,
  \<open>makemigrations\<close>, \<open>migrate\<close>, \<open>collectstatic\<close>, and then nothing or one \<open>runserver\<close>
  command, as the two answers at the launcher decide. And on every run that does not take
  the skip branch (environment present and reinstall answered \<open>n\<close> or \<open>N\<close>), whatever the
  commands do, the first three commands are create, activate, install in this order, as far
  as the run gets: nothing is installed before the environment was created.
\<close>

theorem provision_activate_install_order:
  "(\<not> path_exists w (venv_of w) \<and> (\<forall>n c. child w n c = Ok 0) \<longrightarrow>
      (\<exists>tail. commands (trace (snd (script a w))) =
                commands (trace w) @
                [create_command (venv_of w), activate_command w (venv_of w),
                 install_command (venv_of w) (requirements a),
                 manage_command w (venv_of w) (project_dir a) ''makemigrations'',
                 manage_command w (venv_of w) (project_dir a) ''migrate'',
                 manage_command w (venv_of w) (project_dir a) ''collectstatic --noinput''] @ tail
         \<and> (tail = [] \<or> tail = [manage_command w (venv_of w) (project_dir a) ''runserver'']
              \<or> tail = [manage_command w (venv_of w) (project_dir a) ''runserver 0.0.0.0:80''])
         \<and> (\<forall>s rest. stdin w = Line s # rest \<and> s \<noteq> ''y'' \<and> s \<noteq> ''Y'' \<longrightarrow> tail = [])
         \<and> (\<forall>s t rest. stdin w = Line s # Line t # rest \<and> (s = ''y'' \<or> s = ''Y'')
                \<and> t \<noteq> ''y'' \<and> t \<noteq> ''Y'' \<longrightarrow>
                tail = [manage_command w (venv_of w) (project_dir a) ''runserver''])
         \<and> (\<forall>s t rest. stdin w = Line s # Line t # rest \<and> (s = ''y'' \<or> s = ''Y'')
                \<and> (t = ''y'' \<or> t = ''Y'') \<and> (\<forall>c. sock w c \<noteq> Interrupted) \<longrightarrow>
                tail = [manage_command w (venv_of w) (project_dir a) ''runserver 0.0.0.0:80''])))
   \<and> (\<not> (path_exists w (venv_of w) \<and> (\<exists>s rest. stdin w = Line s # rest \<and> (s = ''n'' \<or> s = ''N''))) \<longrightarrow>
      (\<exists>cs. commands (trace (snd (script a w))) = commands (trace w) @ cs
         \<and> take 3 cs = take (length cs)
              [create_command (venv_of w), activate_command w (venv_of w),
               install_command (venv_of w) (requirements a)]))"
proof (intro conjI impI)
  assume h: "\<not> path_exists w (venv_of w) \<and> (\<forall>n c. child w n c = Ok 0)"
  let ?v = "venv_of w" and ?p = "project_dir a"
  let ?w6 = "w\<lparr>trace := trace w @ provision_events w ?v (requirements a) @ bootstrap_events w ?v ?p\<rparr>"
  let ?six = "[create_command ?v, activate_command w ?v, install_command ?v (requirements a),
                 manage_command w ?v ?p ''makemigrations'', manage_command w ?v ?p ''migrate'',
                 manage_command w ?v ?p ''collectstatic --noinput'']"
  let ?S = "commands (trace (snd (start_django_server ?v ?p ?w6)))"
  from h have ok: "\<forall>n c. child w n c = Ok 0" and fresh: "\<not> path_exists w ?v" by simp_all
  have sc: "commands (trace (snd (script a w))) = ?S"
    by (simp only: script_commands main_try_fresh[OF fresh] setup_steps_ok[OF ok]
        commands_final_print)
  have b: "commands (trace ?w6) = commands (trace w) @ ?six"
    by (simp add: commands_append commands_provision commands_bootstrap)
  have mc: "manage_command ?w6 = manage_command w" by (simp add: manage_command_def fun_eq_iff)
  have si: "stdin ?w6 = stdin w" and so: "sock ?w6 = sock w" by simp_all
  define tail where "tail = drop (length (commands (trace ?w6))) ?S"
  from start_commands_options[of ?v ?p ?w6]
  have opts: "(?S = commands (trace ?w6) @ tail)
        \<and> (tail = [] \<or> tail = [manage_command w ?v ?p ''runserver'']
              \<or> tail = [manage_command w ?v ?p ''runserver 0.0.0.0:80''])"
    unfolding tail_def mc by auto
  have c1: "\<forall>s rest. stdin w = Line s # rest \<and> s \<noteq> ''y'' \<and> s \<noteq> ''Y'' \<longrightarrow> tail = []"
  proof (intro allI impI)
    fix s rest assume "stdin w = Line s # rest \<and> s \<noteq> ''y'' \<and> s \<noteq> ''Y''"
    then have "?S = commands (trace ?w6)"
      by (intro start_commands_declined[where rest = rest and s = s]) (simp_all add: si)
    with opts show "tail = []" by simp
  qed
  have c2: "\<forall>s t rest. stdin w = Line s # Line t # rest \<and> (s = ''y'' \<or> s = ''Y'')
                \<and> t \<noteq> ''y'' \<and> t \<noteq> ''Y'' \<longrightarrow> tail = [manage_command w ?v ?p ''runserver'']"
  proof (intro allI impI)
    fix s t rest assume "stdin w = Line s # Line t # rest \<and> (s = ''y'' \<or> s = ''Y'')
                \<and> t \<noteq> ''y'' \<and> t \<noteq> ''Y''"
    then have "?S = commands (trace ?w6) @ [manage_command ?w6 ?v ?p ''runserver'']"
      by (intro start_commands_local[where rest = rest and s = s and t = t]) (simp_all add: si)
    with opts show "tail = [manage_command w ?v ?p ''runserver'']" by (simp add: mc)
  qed
  have c3: "\<forall>s t rest. stdin w = Line s # Line t # rest \<and> (s = ''y'' \<or> s = ''Y'')
                \<and> (t = ''y'' \<or> t = ''Y'') \<and> (\<forall>c. sock w c \<noteq> Interrupted) \<longrightarrow>
                tail = [manage_command w ?v ?p ''runserver 0.0.0.0:80'']"
  proof (intro allI impI)
    fix s t rest assume "stdin w = Line s # Line t # rest \<and> (s = ''y'' \<or> s = ''Y'')
                \<and> (t = ''y'' \<or> t = ''Y'') \<and> (\<forall>c. sock w c \<noteq> Interrupted)"
    then have "?S = commands (trace ?w6) @ [manage_command ?w6 ?v ?p ''runserver 0.0.0.0:80'']"
      by (intro start_commands_exposed[where rest = rest and s = s and t = t]) (simp_all add: si so)
    with opts show "tail = [manage_command w ?v ?p ''runserver 0.0.0.0:80'']" by (simp add: mc)
  qed
  from opts have "commands (trace (snd (script a w))) = commands (trace ?w6) @ tail"
    by (simp only: sc)
  then have "commands (trace (snd (script a w))) = (commands (trace w) @ ?six) @ tail"
    by (simp only: b)
  then have "commands (trace (snd (script a w))) = commands (trace w) @ ?six @ tail"
    by (simp only: append_assoc)
  with opts c1 c2 c3
  show "\<exists>tail. commands (trace (snd (script a w))) = commands (trace w) @ ?six @ tail
         \<and> (tail = [] \<or> tail = [manage_command w ?v ?p ''runserver'']
              \<or> tail = [manage_command w ?v ?p ''runserver 0.0.0.0:80''])
         \<and> (\<forall>s rest. stdin w = Line s # rest \<and> s \<noteq> ''y'' \<and> s \<noteq> ''Y'' \<longrightarrow> tail = [])
         \<and> (\<forall>s t rest. stdin w = Line s # Line t # rest \<and> (s = ''y'' \<or> s = ''Y'')
                \<and> t \<noteq> ''y'' \<and> t \<noteq> ''Y'' \<longrightarrow>
                tail = [manage_command w ?v ?p ''runserver''])
         \<and> (\<forall>s t rest. stdin w = Line s # Line t # rest \<and> (s = ''y'' \<or> s = ''Y'')
                \<and> (t = ''y'' \<or> t = ''Y'') \<and> (\<forall>c. sock w c \<noteq> Interrupted) \<longrightarrow>
                tail = [manage_command w ?v ?p ''runserver 0.0.0.0:80''])"
    by blast
next
  assume ns: "\<not> (path_exists w (venv_of w) \<and> (\<exists>s rest. stdin w = Line s # rest \<and> (s = ''n'' \<or> s = ''N'')))"
  let ?v = "venv_of w"
  let ?three = "[create_command ?v, activate_command w ?v, install_command ?v (requirements a)]"
  show "\<exists>cs. commands (trace (snd (script a w))) = commands (trace w) @ cs
         \<and> take 3 cs = take (length cs) ?three"
  proof (cases "path_exists w ?v")
    case False
    then show ?thesis
      using setup_steps_prefix[of a ?v w] by (simp add: script_commands main_try_fresh)
  next
    case ex: True
    show ?thesis
    proof (cases "\<exists>s rest. stdin w = Line s # rest")
      case False
      then have "commands (trace (snd (main_try a w))) = commands (trace w)"
        using main_try_no_answer[OF ex, of a] by simp
      then have "commands (trace (snd (script a w))) = commands (trace w) @ []
           \<and> take 3 [] = take (length ([]::string list)) ?three"
        by (simp add: script_commands)
      then show ?thesis by blast
    next
      case True
      then obtain s rest where st: "stdin w = Line s # rest" by blast
      with ns ex have sn: "s \<noteq> ''n''" "s \<noteq> ''N''" by auto
      let ?w1 = "w\<lparr>stdin := rest, trace := trace w @ [Prompt ask_reinstall]\<rparr>"
      have ac: "activate_command ?w1 ?v = activate_command w ?v"
        by (simp add: activate_command_def)
      from setup_steps_prefix[of a ?v ?w1] show ?thesis
        by (simp add: script_commands main_try_reinstall[OF ex st sn] ac commands_append)
    qed
  qed
qed

theorem provision_activate_install_order_witness:
  "commands (trace (snd (script sample_args (sample\<lparr>stdin := [Line ''y'', Line ''n'']\<rparr>)))) =
     [create_command ''C:/tools/venv'', ''C:/tools/venv/Scripts/activate'',
      install_command ''C:/tools/venv'' ''req.txt'',
      manage_command sample ''C:/tools/venv'' ''shop'' ''makemigrations'',
      manage_command sample ''C:/tools/venv'' ''shop'' ''migrate'',
      manage_command sample ''C:/tools/venv'' ''shop'' ''collectstatic --noinput'',
      manage_command sample ''C:/tools/venv'' ''shop'' ''runserver'']"
proof -
  let ?w = "sample\<lparr>stdin := [Line ''y'', Line ''n'']\<rparr>"
  let ?v = "''C:/tools/venv''"
  have h: "\<not> path_exists ?w (venv_of ?w) \<and> (\<forall>n c. child ?w n c = Ok 0)" by (simp add: sample_def)
  have st: "stdin ?w = Line ''y'' # Line ''n'' # [] \<and> (''y'' = ''y'' \<or> ''y'' = ''Y'') \<and> ''n'' \<noteq> ''y'' \<and> ''n'' \<noteq> ''Y''"
    by simp
  have v: "venv_of ?w = ?v" by (simp add: venv_of_def sample_def)
  have ts: "trace ?w = []" by (simp add: sample_def)
  have ac: "activate_command ?w ?v = ''C:/tools/venv/Scripts/activate''"
    by (simp add: activate_command_def sample_def)
  have mc: "manage_command ?w = manage_command sample" by (simp add: manage_command_def fun_eq_iff)
  from provision_activate_install_order[of ?w sample_args] h obtain tail where
    c: "commands (trace (snd (script sample_args ?w))) =
                commands (trace ?w) @
                [create_command (venv_of ?w), activate_command ?w (venv_of ?w),
                 install_command (venv_of ?w) (requirements sample_args),
                 manage_command ?w (venv_of ?w) (project_dir sample_args) ''makemigrations'',
                 manage_command ?w (venv_of ?w) (project_dir sample_args) ''migrate'',
                 manage_command ?w (venv_of ?w) (project_dir sample_args) ''collectstatic --noinput''] @ tail"
    and t: "\<forall>s t rest. stdin ?w = Line s # Line t # rest \<and> (s = ''y'' \<or> s = ''Y'')
                \<and> t \<noteq> ''y'' \<and> t \<noteq> ''Y'' \<longrightarrow>
                tail = [manage_command ?w (venv_of ?w) (project_dir sample_args) ''runserver'']"
    by blast
  from t st have "tail = [manage_command ?w (venv_of ?w) (project_dir sample_args) ''runserver'']"
    by blast
  with c show ?thesis
    unfolding v ts ac mc by (simp add: sample_args_def)
qed

end
